theory Spec2Isabelle
  imports Main "HOL-Library.Sublist"
begin

section \<open>The comment fetcher: data model\<close>

text \<open>
  The program is the single file \<^verbatim>\<open>github-comments-fetcher.go\<close>. Its \<^verbatim>\<open>main\<close> reads three
  flags, merges them with a cache file, reads a bearer token from the environment, issues
  two HTTP GET requests, decodes the two JSON bodies and writes a transcript.

  Strings are Go strings, that is byte sequences: \<^typ>\<open>string\<close>.
\<close>

subsection \<open>Values of the standard library\<close>

text \<open>A parsed JSON text, as \<^verbatim>\<open>encoding/json\<close> sees it. Object members keep their order.\<close>

datatype json =
    JNull
  | JBool bool
  | JNumber string
  | JString string
  | JArray "json list"
  | JObject "(string \<times> json) list"

text \<open>
  A \<^verbatim>\<open>time.Time\<close>, reduced to the wall-clock fields that \<^verbatim>\<open>Format\<close> prints.
  The zero value of \<^verbatim>\<open>time.Time\<close> is January 1 of year 1, 00:00:00.
\<close>

record gotime =
  Year :: nat
  Month :: nat
  Day :: nat
  Hour :: nat
  Minute :: nat
  Second :: nat

definition zeroTime :: gotime where
  "zeroTime = \<lparr>Year = 1, Month = 1, Day = 1, Hour = 0, Minute = 0, Second = 0\<rparr>"

text \<open>A \<^verbatim>\<open>url.URL\<close> and an \<^verbatim>\<open>http.Request\<close>, with the fields the program touches.\<close>

record URL =
  Scheme :: string
  Host :: string
  Path :: string

record Request =
  Method :: string
  ReqURL :: URL
  Authorization :: "string option"

text \<open>
  The functions of the Go standard library whose code is not part of the program are
  parameters of the model:
  \<^item> \<open>jsonParse\<close>: the syntax check and scan of \<^verbatim>\<open>json.Unmarshal\<close>; \<open>None\<close> is a
    syntax error;
  \<^item> \<open>fieldMatch name key\<close>: whether \<^verbatim>\<open>encoding/json\<close> stores the member \<open>key\<close> into the
    struct field tagged \<open>name\<close>;
  \<^item> \<open>parseTime\<close>: \<^verbatim>\<open>Time.UnmarshalJSON\<close> on the content of a JSON string (RFC 3339);
  \<^item> \<open>quoteString\<close>: the JSON string literal that \<^verbatim>\<open>json.Marshal\<close> writes for a string;
  \<^item> \<open>parseURL\<close>: \<^verbatim>\<open>url.Parse\<close> as called by \<^verbatim>\<open>http.NewRequest\<close>; \<open>None\<close> is an error.
\<close>

record lib =
  jsonParse :: "string \<Rightarrow> json option"
  fieldMatch :: "string \<Rightarrow> string \<Rightarrow> bool"
  parseTime :: "string \<Rightarrow> gotime option"
  quoteString :: "string \<Rightarrow> string"
  parseURL :: "string \<Rightarrow> URL option"

subsection \<open>The records of the program\<close>

text \<open>\<^verbatim>\<open>type User struct\<close>, \<^verbatim>\<open>type Issue struct\<close>, \<^verbatim>\<open>type Comment struct\<close>. The fields
  of \<^verbatim>\<open>Comment\<close> carry the prefix \<open>Comment\<close>, since a field name is a constant here.\<close>

record User =
  Login :: string

record Issue =
  Title :: string
  Body :: string
  User :: User
  DateTime :: gotime
  UpdatedAt :: gotime

record Comment =
  CommentBody :: string
  CommentUser :: User
  CommentDateTime :: gotime

text \<open>The anonymous struct with the tags \<^verbatim>\<open>owner\<close>, \<^verbatim>\<open>repo\<close>, \<^verbatim>\<open>issueNumber\<close>.\<close>

record Inputs =
  Owner :: string
  Repo :: string
  IssueNumber :: string

definition zeroUser :: User where
  "zeroUser = \<lparr>Login = []\<rparr>"

definition zeroIssue :: Issue where
  "zeroIssue = \<lparr>Title = [], Body = [], User = zeroUser, DateTime = zeroTime, UpdatedAt = zeroTime\<rparr>"

definition zeroComment :: Comment where
  "zeroComment = \<lparr>CommentBody = [], CommentUser = zeroUser, CommentDateTime = zeroTime\<rparr>"

definition zeroInputs :: Inputs where
  "zeroInputs = \<lparr>Owner = [], Repo = [], IssueNumber = []\<rparr>"

subsection \<open>The environment of a run and the state it changes\<close>

text \<open>What \<^verbatim>\<open>client.Do\<close> and \<^verbatim>\<open>io.ReadAll\<close> give for a request: an error of \<^verbatim>\<open>Do\<close>, or a
  response with \<^verbatim>\<open>StatusCode\<close>, \<^verbatim>\<open>Status\<close> and the body (\<open>None\<close> when reading it fails).\<close>

datatype http_result =
    DoError
  | Response nat string "string option"

text \<open>What \<^verbatim>\<open>os.WriteFile\<close> does to the cache file: it writes everything, or it fails to open
  the file and leaves it as it was, or it fails after the given number of bytes.\<close>

datatype write_file_result =
    WriteFileOk
  | OpenError
  | WriteError nat

text \<open>
  The environment holds what the program reads and the faults it may meet:
  the three flag variables after \<^verbatim>\<open>flag.Parse\<close>; the result of \<^verbatim>\<open>os.Getwd\<close>; whether
  \<^verbatim>\<open>os.ReadFile\<close> of the cache file succeeds; what \<^verbatim>\<open>os.WriteFile\<close> does; the variable
  \<^verbatim>\<open>GITHUB_ACCESS_TOKEN\<close> (empty when unset); the server; whether \<^verbatim>\<open>os.Create\<close> succeeds;
  and, for a \<^verbatim>\<open>WriteString\<close> of some data to the output file with some content, \<open>None\<close>
  when all of it is written and \<open>Some n\<close> when it fails after \<open>n\<close> bytes.
\<close>

record env =
  ownerFlag :: string
  repoFlag :: string
  issueNumberFlag :: string
  getwd :: "string option"
  readFileOk :: bool
  writeFile :: write_file_result
  accessTokenEnv :: string
  server :: "Request \<Rightarrow> http_result"
  createOk :: bool
  writeString :: "string \<Rightarrow> string \<Rightarrow> nat option"

text \<open>
  The state: the cache file \<^verbatim>\<open>github-comments-fetcher-inputs.txt\<close> and the output file
  \<^verbatim>\<open>comments.txt\<close> (\<open>None\<close> when absent), the requests sent so far, oldest first, and the
  lines printed on standard output.
\<close>

record world =
  inputsFile :: "string option"
  commentsFile :: "string option"
  sent :: "Request list"
  stdout :: "string list"

text \<open>Every \<^verbatim>\<open>panic\<close> and \<^verbatim>\<open>log.Fatalf\<close> of the program, in the order of the source.
  The two status failures carry \<^verbatim>\<open>resp.Status\<close>.\<close>

datatype fatal =
    PanicGetwd
  | PanicReadInputs
  | PanicParseInputs
  | PanicEmptyOwnerRepo
  | PanicMarshalUpdated
  | PanicWriteUpdated
  | PanicMarshalNew
  | PanicWriteNew
  | PanicNoToken
  | FatalCreateRequest
  | FatalSendRequest
  | FatalReadBody
  | FatalStatus string
  | FatalParseIssue
  | FatalCreateFile
  | FatalWriteIssue
  | FatalCreateCommentsRequest
  | FatalSendComments
  | FatalReadCommentsBody
  | FatalCommentsStatus string
  | FatalParseComments
  | FatalWriteSpace
  | FatalWriteHeader
  | FatalWriteBody

section \<open>Decoding and encoding\<close>

text \<open>
  \<^verbatim>\<open>json.Unmarshal\<close> into a struct: \<^verbatim>\<open>null\<close> leaves the target as it is, an object stores
  its members one after the other (a later member overwrites an earlier one), any other
  value is an error. A member that matches no field is skipped.
\<close>

fun decodeMembers :: "(string \<Rightarrow> json \<Rightarrow> 'a \<Rightarrow> 'a option) \<Rightarrow> (string \<times> json) list \<Rightarrow> 'a \<Rightarrow> 'a option" where
  "decodeMembers f [] x = Some x"
| "decodeMembers f ((k, v) # kvs) x =
     (case f k v x of None \<Rightarrow> None | Some x' \<Rightarrow> decodeMembers f kvs x')"

definition decodeStruct :: "(string \<Rightarrow> json \<Rightarrow> 'a \<Rightarrow> 'a option) \<Rightarrow> json \<Rightarrow> 'a \<Rightarrow> 'a option" where
  "decodeStruct f j x =
     (case j of JNull \<Rightarrow> Some x | JObject kvs \<Rightarrow> decodeMembers f kvs x | _ \<Rightarrow> None)"

text \<open>Into a \<^verbatim>\<open>string\<close> field and into a \<^verbatim>\<open>time.Time\<close> field.\<close>

definition decodeString :: "json \<Rightarrow> string \<Rightarrow> string option" where
  "decodeString j cur = (case j of JNull \<Rightarrow> Some cur | JString s \<Rightarrow> Some s | _ \<Rightarrow> None)"

definition decodeTime :: "lib \<Rightarrow> json \<Rightarrow> gotime \<Rightarrow> gotime option" where
  "decodeTime L j cur = (case j of JNull \<Rightarrow> Some cur | JString s \<Rightarrow> parseTime L s | _ \<Rightarrow> None)"

definition userMember :: "lib \<Rightarrow> string \<Rightarrow> json \<Rightarrow> User \<Rightarrow> User option" where
  "userMember L k v u =
     (if fieldMatch L ''login'' k then map_option (\<lambda>s. u\<lparr>Login := s\<rparr>) (decodeString v (Login u))
      else Some u)"

definition decodeUser :: "lib \<Rightarrow> json \<Rightarrow> User \<Rightarrow> User option" where
  "decodeUser L = decodeStruct (userMember L)"

definition issueMember :: "lib \<Rightarrow> string \<Rightarrow> json \<Rightarrow> Issue \<Rightarrow> Issue option" where
  "issueMember L k v i =
     (if fieldMatch L ''title'' k then map_option (\<lambda>s. i\<lparr>Title := s\<rparr>) (decodeString v (Title i))
      else if fieldMatch L ''body'' k then map_option (\<lambda>s. i\<lparr>Body := s\<rparr>) (decodeString v (Body i))
      else if fieldMatch L ''user'' k then map_option (\<lambda>u. i\<lparr>User := u\<rparr>) (decodeUser L v (User i))
      else if fieldMatch L ''created_at'' k then
        map_option (\<lambda>t. i\<lparr>DateTime := t\<rparr>) (decodeTime L v (DateTime i))
      else if fieldMatch L ''updated_at'' k then
        map_option (\<lambda>t. i\<lparr>UpdatedAt := t\<rparr>) (decodeTime L v (UpdatedAt i))
      else Some i)"

definition decodeIssue :: "lib \<Rightarrow> json \<Rightarrow> Issue \<Rightarrow> Issue option" where
  "decodeIssue L = decodeStruct (issueMember L)"

definition commentMember :: "lib \<Rightarrow> string \<Rightarrow> json \<Rightarrow> Comment \<Rightarrow> Comment option" where
  "commentMember L k v c =
     (if fieldMatch L ''body'' k then
        map_option (\<lambda>s. c\<lparr>CommentBody := s\<rparr>) (decodeString v (CommentBody c))
      else if fieldMatch L ''user'' k then
        map_option (\<lambda>u. c\<lparr>CommentUser := u\<rparr>) (decodeUser L v (CommentUser c))
      else if fieldMatch L ''created_at'' k then
        map_option (\<lambda>t. c\<lparr>CommentDateTime := t\<rparr>) (decodeTime L v (CommentDateTime c))
      else Some c)"

definition decodeComment :: "lib \<Rightarrow> json \<Rightarrow> Comment \<Rightarrow> Comment option" where
  "decodeComment L = decodeStruct (commentMember L)"

text \<open>Into the nil slice \<^verbatim>\<open>var comments []Comment\<close>: every element of the array is decoded
  into a fresh zero \<^verbatim>\<open>Comment\<close>; \<^verbatim>\<open>null\<close> leaves the slice nil.\<close>

fun decodeElements :: "lib \<Rightarrow> json list \<Rightarrow> Comment list option" where
  "decodeElements L [] = Some []"
| "decodeElements L (j # js) =
     (case decodeComment L j zeroComment of
        None \<Rightarrow> None
      | Some c \<Rightarrow> (case decodeElements L js of None \<Rightarrow> None | Some cs \<Rightarrow> Some (c # cs)))"

definition decodeComments :: "lib \<Rightarrow> json \<Rightarrow> Comment list option" where
  "decodeComments L j =
     (case j of JNull \<Rightarrow> Some [] | JArray js \<Rightarrow> decodeElements L js | _ \<Rightarrow> None)"

definition inputsMember :: "lib \<Rightarrow> string \<Rightarrow> json \<Rightarrow> Inputs \<Rightarrow> Inputs option" where
  "inputsMember L k v i =
     (if fieldMatch L ''owner'' k then map_option (\<lambda>s. i\<lparr>Owner := s\<rparr>) (decodeString v (Owner i))
      else if fieldMatch L ''repo'' k then map_option (\<lambda>s. i\<lparr>Repo := s\<rparr>) (decodeString v (Repo i))
      else if fieldMatch L ''issueNumber'' k then
        map_option (\<lambda>s. i\<lparr>IssueNumber := s\<rparr>) (decodeString v (IssueNumber i))
      else Some i)"

definition decodeInputs :: "lib \<Rightarrow> json \<Rightarrow> Inputs \<Rightarrow> Inputs option" where
  "decodeInputs L = decodeStruct (inputsMember L)"

text \<open>\<^verbatim>\<open>json.Unmarshal(data, &v)\<close> for the three targets of the program.\<close>

definition unmarshalIssue :: "lib \<Rightarrow> string \<Rightarrow> Issue option" where
  "unmarshalIssue L data =
     (case jsonParse L data of None \<Rightarrow> None | Some j \<Rightarrow> decodeIssue L j zeroIssue)"

definition unmarshalComments :: "lib \<Rightarrow> string \<Rightarrow> Comment list option" where
  "unmarshalComments L data =
     (case jsonParse L data of None \<Rightarrow> None | Some j \<Rightarrow> decodeComments L j)"

definition unmarshalInputs :: "lib \<Rightarrow> string \<Rightarrow> Inputs option" where
  "unmarshalInputs L data =
     (case jsonParse L data of None \<Rightarrow> None | Some j \<Rightarrow> decodeInputs L j zeroInputs)"

text \<open>
  \<^verbatim>\<open>json.MarshalIndent(newInputs, "", "  ")\<close> for the struct of three strings: one member
  per line, indented by two spaces, in the order of the fields. It has no error for this
  type; the result type keeps the branch of the source.
\<close>

definition marshalIndent :: "lib \<Rightarrow> Inputs \<Rightarrow> string option" where
  "marshalIndent L i = Some (
     [CHR ''{'', CHR 0x0A] @
     ''  '' @ [CHR 0x22] @ ''owner'' @ [CHR 0x22] @ '': '' @ quoteString L (Owner i) @ [CHR '','', CHR 0x0A] @
     ''  '' @ [CHR 0x22] @ ''repo'' @ [CHR 0x22] @ '': '' @ quoteString L (Repo i) @ [CHR '','', CHR 0x0A] @
     ''  '' @ [CHR 0x22] @ ''issueNumber'' @ [CHR 0x22] @ '': '' @ quoteString L (IssueNumber i) @ [CHR 0x0A] @
     [CHR ''}''])"

section \<open>Formatting\<close>

text \<open>\<^verbatim>\<open>%d\<close> of a non-negative \<^verbatim>\<open>int\<close>: its decimal digits. \<open>digit\<close> is only
  applied to numbers below ten.\<close>

definition digit :: "nat \<Rightarrow> char" where
  "digit d = ''0123456789'' ! d"

fun itoa :: "nat \<Rightarrow> string" where
  "itoa n = (if n < 10 then [digit n] else itoa (n div 10) @ [digit (n mod 10)])"

text \<open>
  \<^verbatim>\<open>Format("2006-01-02 15:04:05")\<close>: the layout elements \<^verbatim>\<open>2006\<close>, \<^verbatim>\<open>01\<close>, \<^verbatim>\<open>02\<close>, \<^verbatim>\<open>15\<close>,
  \<^verbatim>\<open>04\<close>, \<^verbatim>\<open>05\<close> print the year padded with zeros to four digits and the month, day, hour,
  minute and second padded to two; the other characters of the layout are copied.
\<close>

definition zeroPad :: "nat \<Rightarrow> nat \<Rightarrow> string" where
  "zeroPad width n = replicate (width - length (itoa n)) (CHR ''0'') @ itoa n"

definition formatTime :: "gotime \<Rightarrow> string" where
  "formatTime t =
     zeroPad 4 (Year t) @ ''-'' @ zeroPad 2 (Month t) @ ''-'' @ zeroPad 2 (Day t) @ '' '' @
     zeroPad 2 (Hour t) @ '':'' @ zeroPad 2 (Minute t) @ '':'' @ zeroPad 2 (Second t)"

text \<open>The value of \<^verbatim>\<open>issueLine\<close> (lines 187-188) and of \<^verbatim>\<open>commentHeader\<close> (line 236; the
  index is the loop variable \<open>i\<close>, printed as \<open>i + 1\<close>).\<close>

definition issueLine :: "Issue \<Rightarrow> string" where
  "issueLine issue =
     ''Issue Title: '' @ Title issue @ ''\<newline>'' @
     ''Issue Body: '' @ Body issue @ ''\<newline>'' @
     ''Issue Author: '' @ Login (User issue) @ ''\<newline>'' @
     ''Created At: '' @ formatTime (DateTime issue) @ ''\<newline>'' @
     ''Updated At: '' @ formatTime (UpdatedAt issue) @ ''\<newline>\<newline>''"

definition commentHeader :: "nat \<Rightarrow> Comment \<Rightarrow> string" where
  "commentHeader i comment =
     ''Comment '' @ itoa (i + 1) @ '' by '' @ Login (CommentUser comment) @ '' at '' @
     formatTime (CommentDateTime comment)"

section \<open>The program\<close>

subsection \<open>Files and requests\<close>

text \<open>\<^verbatim>\<open>getAbsolutePath\<close> (lines 274-281). \<^verbatim>\<open>filepath.Join\<close> is written as a plain join
  with a separator; the state has only the two files of the program, so the path chooses nothing.\<close>

definition getAbsolutePath :: "env \<Rightarrow> string \<Rightarrow> fatal + string" where
  "getAbsolutePath E filePath =
     (case getwd E of
        None \<Rightarrow> Inl PanicGetwd
      | Some currentDir \<Rightarrow> Inr (currentDir @ ''/'' @ filePath))"

text \<open>\<^verbatim>\<open>os.ReadFile\<close> and \<^verbatim>\<open>os.WriteFile\<close> on the cache file.\<close>

definition osReadFile :: "env \<Rightarrow> world \<Rightarrow> string option" where
  "osReadFile E w = (if readFileOk E then inputsFile w else None)"

definition osWriteFile :: "env \<Rightarrow> string \<Rightarrow> world \<Rightarrow> bool \<times> world" where
  "osWriteFile E data w =
     (case writeFile E of
        WriteFileOk \<Rightarrow> (True, w\<lparr>inputsFile := Some data\<rparr>)
      | OpenError \<Rightarrow> (False, w)
      | WriteError n \<Rightarrow> (False, w\<lparr>inputsFile := Some (take n data)\<rparr>))"

text \<open>\<^verbatim>\<open>os.Create("comments.txt")\<close> truncates the file; \<^verbatim>\<open>file.WriteString\<close> appends to it,
  and a failing write may leave a part of the data.\<close>

definition osCreate :: "env \<Rightarrow> world \<Rightarrow> bool \<times> world" where
  "osCreate E w = (if createOk E then (True, w\<lparr>commentsFile := Some []\<rparr>) else (False, w))"

definition fileWriteString :: "env \<Rightarrow> string \<Rightarrow> world \<Rightarrow> bool \<times> world" where
  "fileWriteString E s w =
     (case commentsFile w of
        None \<Rightarrow> (False, w)
      | Some cur \<Rightarrow>
          (case writeString E cur s of
             None \<Rightarrow> (True, w\<lparr>commentsFile := Some (cur @ s)\<rparr>)
           | Some n \<Rightarrow> (False, w\<lparr>commentsFile := Some (cur @ take n s)\<rparr>)))"

text \<open>\<^verbatim>\<open>http.NewRequest(method, url, nil)\<close> and \<^verbatim>\<open>client.Do(req)\<close>; the request is logged
  when it is sent.\<close>

definition newRequest :: "lib \<Rightarrow> string \<Rightarrow> string \<Rightarrow> Request option" where
  "newRequest L method url =
     (case parseURL L url of
        None \<Rightarrow> None
      | Some u \<Rightarrow> Some \<lparr>Method = method, ReqURL = u, Authorization = None\<rparr>)"

definition clientDo :: "env \<Rightarrow> Request \<Rightarrow> world \<Rightarrow> http_result \<times> world" where
  "clientDo E req w = (server E req, w\<lparr>sent := sent w @ [req]\<rparr>)"

subsection \<open>The functions of the source\<close>

text \<open>\<^verbatim>\<open>readInputsFromFile\<close> (lines 253-272).\<close>

definition readInputsFromFile :: "lib \<Rightarrow> env \<Rightarrow> world \<Rightarrow> fatal + Inputs" where
  "readInputsFromFile L E w =
     (case osReadFile E w of
        None \<Rightarrow> Inl PanicReadInputs
      | Some fileData \<Rightarrow>
          (case unmarshalInputs L fileData of
             None \<Rightarrow> Inl PanicParseInputs
           | Some inputs \<Rightarrow> Inr inputs))"

text \<open>\<^verbatim>\<open>updateInputsInFile\<close> (lines 283-306).\<close>

definition updateInputsInFile :: "lib \<Rightarrow> env \<Rightarrow> string \<Rightarrow> string \<Rightarrow> string \<Rightarrow> world \<Rightarrow> fatal option \<times> world" where
  "updateInputsInFile L E owner repo issueNumber w =
     (let newInputs = \<lparr>Owner = owner, Repo = repo, IssueNumber = issueNumber\<rparr> in
      case marshalIndent L newInputs of
        None \<Rightarrow> (Some PanicMarshalUpdated, w)
      | Some newInputsJSON \<Rightarrow>
          (let (ok, w') = osWriteFile E newInputsJSON w in
           if ok then (None, w') else (Some PanicWriteUpdated, w')))"

text \<open>
  \<^verbatim>\<open>main\<close>, lines 65-124: the three variables \<^verbatim>\<open>currentOwner\<close>, \<^verbatim>\<open>currentRepo\<close> and
  \<^verbatim>\<open>currentIssueNumber\<close> after the cache file has been read or created. \<^verbatim>\<open>os.Stat\<close> has a
  nil error when the file is there. In the branch that creates the file the three
  variables are not assigned: they keep the zero value of their declaration.
\<close>

definition main_inputs :: "lib \<Rightarrow> env \<Rightarrow> world \<Rightarrow> (fatal + string \<times> string \<times> string) \<times> world" where
  "main_inputs L E w =
     (case getAbsolutePath E ''github-comments-fetcher-inputs.txt'' of
        Inl e \<Rightarrow> (Inl e, w)
      | Inr inputsFilePath \<Rightarrow>
          if inputsFile w \<noteq> None then
            (case readInputsFromFile L E w of
               Inl e \<Rightarrow> (Inl e, w)
             | Inr inputs \<Rightarrow>
                 if Owner inputs = [] \<or> Repo inputs = [] then (Inl PanicEmptyOwnerRepo, w)
                 else
                   (let currentOwner = (if ownerFlag E \<noteq> [] then ownerFlag E else Owner inputs);
                        currentRepo = (if repoFlag E \<noteq> [] then repoFlag E else Repo inputs);
                        currentIssueNumber =
                          (if issueNumberFlag E \<noteq> [] then issueNumberFlag E else IssueNumber inputs)
                    in case updateInputsInFile L E currentOwner currentRepo currentIssueNumber w of
                         (Some e, w') \<Rightarrow> (Inl e, w')
                       | (None, w') \<Rightarrow> (Inr (currentOwner, currentRepo, currentIssueNumber), w')))
          else
            (let newInputs =
                   \<lparr>Owner = ownerFlag E, Repo = repoFlag E, IssueNumber = issueNumberFlag E\<rparr>
             in case marshalIndent L newInputs of
                  None \<Rightarrow> (Inl PanicMarshalNew, w)
                | Some newInputsJSON \<Rightarrow>
                    (let (ok, w') = osWriteFile E newInputsJSON w in
                     if ok then (Inr ([], [], []), w') else (Inl PanicWriteNew, w'))))"

text \<open>
  \<^verbatim>\<open>main\<close>, lines 137-152: the request for the issue. The constant \<^verbatim>\<open>apiURL\<close> (line 60)
  is parsed, the header is set, and the path of the parsed URL is replaced (line 152).
  \<open>None\<close> is the error of \<^verbatim>\<open>http.NewRequest\<close>.
\<close>

definition apiURL :: string where
  "apiURL = ''https://api.github.com/repos/{owner}/{repo}/issues/{issueNumber}''"

definition issuePath :: "string \<Rightarrow> string \<Rightarrow> string \<Rightarrow> string" where
  "issuePath owner repo issueNumber =
     ''/repos/'' @ owner @ ''/'' @ repo @ ''/issues/'' @ issueNumber"

definition issueRequest :: "lib \<Rightarrow> string \<Rightarrow> string \<Rightarrow> string \<Rightarrow> string \<Rightarrow> Request option" where
  "issueRequest L accessToken owner repo issueNumber =
     (case newRequest L ''GET'' apiURL of
        None \<Rightarrow> None
      | Some req0 \<Rightarrow>
          (let req = (if accessToken \<noteq> []
                      then req0\<lparr>Authorization := Some (''Bearer '' @ accessToken)\<rparr> else req0)
           in Some (req\<lparr>ReqURL := (ReqURL req)\<lparr>Path := issuePath owner repo issueNumber\<rparr>\<rparr>)))"

text \<open>\<^verbatim>\<open>main\<close>, lines 155-177, after \<^verbatim>\<open>client.Do\<close>: the body is read before the status is
  looked at, and the body is decoded only under status 200.\<close>

definition issueResponse :: "lib \<Rightarrow> http_result \<Rightarrow> fatal + Issue" where
  "issueResponse L resp =
     (case resp of
        DoError \<Rightarrow> Inl FatalSendRequest
      | Response statusCode status readAll \<Rightarrow>
          (case readAll of
             None \<Rightarrow> Inl FatalReadBody
           | Some body \<Rightarrow>
               if statusCode \<noteq> 200 then Inl (FatalStatus status)
               else (case unmarshalIssue L body of
                       None \<Rightarrow> Inl FatalParseIssue
                     | Some issue \<Rightarrow> Inr issue)))"

definition main_issue :: "lib \<Rightarrow> env \<Rightarrow> string \<Rightarrow> string \<Rightarrow> string \<Rightarrow> string \<Rightarrow> world \<Rightarrow> (fatal + Issue) \<times> world" where
  "main_issue L E accessToken owner repo issueNumber w =
     (case issueRequest L accessToken owner repo issueNumber of
        None \<Rightarrow> (Inl FatalCreateRequest, w)
      | Some req \<Rightarrow> (let (resp, w') = clientDo E req w in (issueResponse L resp, w')))"

text \<open>\<^verbatim>\<open>main\<close>, lines 179-192: the output file is created and the issue is written.\<close>

definition main_writeIssue :: "env \<Rightarrow> Issue \<Rightarrow> world \<Rightarrow> fatal option \<times> world" where
  "main_writeIssue E issue w =
     (let (created, w1) = osCreate E w in
      if \<not> created then (Some FatalCreateFile, w1)
      else (let (ok, w2) = fileWriteString E (issueLine issue) w1 in
            if ok then (None, w2) else (Some FatalWriteIssue, w2)))"

text \<open>\<^verbatim>\<open>main\<close>, lines 194-225: the request for the comments, with the URL of line 195,
  and what is done with its response.\<close>

definition apiCommentsURL :: "string \<Rightarrow> string \<Rightarrow> string \<Rightarrow> string" where
  "apiCommentsURL owner repo issueNumber =
     ''https://api.github.com/repos/'' @ owner @ ''/'' @ repo @ ''/issues/'' @ issueNumber @
     ''/comments''"

definition commentsRequest :: "lib \<Rightarrow> string \<Rightarrow> string \<Rightarrow> string \<Rightarrow> string \<Rightarrow> Request option" where
  "commentsRequest L accessToken owner repo issueNumber =
     (case newRequest L ''GET'' (apiCommentsURL owner repo issueNumber) of
        None \<Rightarrow> None
      | Some reqComments \<Rightarrow>
          Some (if accessToken \<noteq> []
                then reqComments\<lparr>Authorization := Some (''Bearer '' @ accessToken)\<rparr>
                else reqComments))"

definition commentsResponse :: "lib \<Rightarrow> http_result \<Rightarrow> fatal + Comment list" where
  "commentsResponse L respComments =
     (case respComments of
        DoError \<Rightarrow> Inl FatalSendComments
      | Response statusCode status readAll \<Rightarrow>
          (case readAll of
             None \<Rightarrow> Inl FatalReadCommentsBody
           | Some bodyComments \<Rightarrow>
               if statusCode \<noteq> 200 then Inl (FatalCommentsStatus status)
               else (case unmarshalComments L bodyComments of
                       None \<Rightarrow> Inl FatalParseComments
                     | Some comments \<Rightarrow> Inr comments)))"

definition main_comments :: "lib \<Rightarrow> env \<Rightarrow> string \<Rightarrow> string \<Rightarrow> string \<Rightarrow> string \<Rightarrow> world \<Rightarrow> (fatal + Comment list) \<times> world" where
  "main_comments L E accessToken owner repo issueNumber w =
     (case commentsRequest L accessToken owner repo issueNumber of
        None \<Rightarrow> (Inl FatalCreateCommentsRequest, w)
      | Some reqComments \<Rightarrow>
          (let (respComments, w') = clientDo E reqComments w
           in (commentsResponse L respComments, w')))"

text \<open>\<^verbatim>\<open>main\<close>, lines 227-248: the loop over the comments; \<open>i\<close> is the index of the first
  comment of the list.\<close>

fun writeComments :: "env \<Rightarrow> nat \<Rightarrow> Comment list \<Rightarrow> world \<Rightarrow> fatal option \<times> world" where
  "writeComments E i [] w = (None, w)"
| "writeComments E i (comment # comments) w =
     (let (ok1, w1) = (if i > 0 then fileWriteString E ''\<newline>'' w else (True, w)) in
      if \<not> ok1 then (Some FatalWriteSpace, w1)
      else (let (ok2, w2) = fileWriteString E (commentHeader i comment @ '':\<newline>'') w1 in
            if \<not> ok2 then (Some FatalWriteHeader, w2)
            else (let (ok3, w3) = fileWriteString E (CommentBody comment @ ''\<newline>'') w2 in
                  if \<not> ok3 then (Some FatalWriteBody, w3)
                  else writeComments E (i + 1) comments w3)))"

text \<open>\<^verbatim>\<open>main\<close> (lines 58-251). The result is \<open>None\<close> when the program returns from \<^verbatim>\<open>main\<close>,
  and the \<^verbatim>\<open>panic\<close> or \<^verbatim>\<open>log.Fatalf\<close> that ended it otherwise, with the state it leaves.\<close>

definition main :: "lib \<Rightarrow> env \<Rightarrow> world \<Rightarrow> fatal option \<times> world" where
  "main L E w =
     (case main_inputs L E w of
        (Inl e, w1) \<Rightarrow> (Some e, w1)
      | (Inr (owner, repo, issueNumber), w1) \<Rightarrow>
          (let accessToken = accessTokenEnv E in
           if accessToken = [] then (Some PanicNoToken, w1)
           else
             (case main_issue L E accessToken owner repo issueNumber w1 of
                (Inl e, w2) \<Rightarrow> (Some e, w2)
              | (Inr issue, w2) \<Rightarrow>
                  (case main_writeIssue E issue w2 of
                     (Some e, w3) \<Rightarrow> (Some e, w3)
                   | (None, w3) \<Rightarrow>
                       (case main_comments L E accessToken owner repo issueNumber w3 of
                          (Inl e, w4) \<Rightarrow> (Some e, w4)
                        | (Inr comments, w4) \<Rightarrow>
                            (case writeComments E 0 comments w4 of
                               (Some e, w5) \<Rightarrow> (Some e, w5)
                             | (None, w5) \<Rightarrow>
                                 (None, w5\<lparr>stdout := stdout w5 @
                                   [''Issue details and comments have been fetched and saved to comments.txt.'']\<rparr>)))))))"

text \<open>What the loop appends to the output file when no write fails.\<close>

fun loopText :: "nat \<Rightarrow> Comment list \<Rightarrow> string" where
  "loopText i [] = []"
| "loopText i (comment # comments) =
     (if i > 0 then ''\<newline>'' else []) @ commentHeader i comment @ '':\<newline>'' @
     CommentBody comment @ ''\<newline>'' @ loopText (i + 1) comments"

section \<open>The specification's words\<close>

text \<open>
  The transcript as the specification describes it, line by line: the issue header block
  (title, body, author login, creation and update timestamps), one blank line, then one
  block of two lines for each comment, numbered from 1, with exactly one blank line
  between two consecutive blocks. A timestamp is \<^verbatim>\<open>YYYY-MM-DD HH:MM:SS\<close>: four digits,
  then five times two digits.
\<close>

fun digits :: "nat \<Rightarrow> nat \<Rightarrow> string" where
  "digits 0 n = []"
| "digits (Suc k) n = digits k (n div 10) @ [digit (n mod 10)]"

definition timestamp :: "gotime \<Rightarrow> string" where
  "timestamp t =
     digits 4 (Year t) @ ''-'' @ digits 2 (Month t) @ ''-'' @ digits 2 (Day t) @ '' '' @
     digits 2 (Hour t) @ '':'' @ digits 2 (Minute t) @ '':'' @ digits 2 (Second t)"

definition issueHeaderBlock :: "Issue \<Rightarrow> string list" where
  "issueHeaderBlock issue =
     [''Issue Title: '' @ Title issue,
      ''Issue Body: '' @ Body issue,
      ''Issue Author: '' @ Login (User issue),
      ''Created At: '' @ timestamp (DateTime issue),
      ''Updated At: '' @ timestamp (UpdatedAt issue)]"

definition commentBlock :: "nat \<Rightarrow> Comment \<Rightarrow> string list" where
  "commentBlock i comment =
     [''Comment '' @ itoa i @ '' by '' @ Login (CommentUser comment) @ '' at '' @
        timestamp (CommentDateTime comment) @ '':'',
      CommentBody comment]"

fun separated :: "string list list \<Rightarrow> string list" where
  "separated [] = []"
| "separated [b] = b"
| "separated (b # b' # bs) = b @ [''''] @ separated (b' # bs)"

definition transcriptLines :: "Issue \<Rightarrow> Comment list \<Rightarrow> string list" where
  "transcriptLines issue comments =
     issueHeaderBlock issue @ [''''] @
     separated (map (\<lambda>(i, c). commentBlock i c) (enumerate 1 comments))"

definition unlines :: "string list \<Rightarrow> string" where
  "unlines ls = concat (map (\<lambda>l. l @ ''\<newline>'') ls)"

definition transcript :: "Issue \<Rightarrow> Comment list \<Rightarrow> string" where
  "transcript issue comments = unlines (transcriptLines issue comments)"

text \<open>The fields of a time fit the layout: what a parsed RFC 3339 timestamp has.\<close>

definition fitsLayout :: "gotime \<Rightarrow> bool" where
  "fitsLayout t \<longleftrightarrow>
     Year t < 10000 \<and> Month t < 100 \<and> Day t < 100 \<and> Hour t < 100 \<and> Minute t < 100 \<and> Second t < 100"

text \<open>The parameter set the specification expects in the cache file: the flags alone, or
  the cached set with every non-empty flag in place of the cached field.\<close>

definition flagInputs :: "env \<Rightarrow> Inputs" where
  "flagInputs E = \<lparr>Owner = ownerFlag E, Repo = repoFlag E, IssueNumber = issueNumberFlag E\<rparr>"

definition overrideInputs :: "env \<Rightarrow> Inputs \<Rightarrow> Inputs" where
  "overrideInputs E cached =
     \<lparr>Owner = (if ownerFlag E = [] then Owner cached else ownerFlag E),
      Repo = (if repoFlag E = [] then Repo cached else repoFlag E),
      IssueNumber = (if issueNumberFlag E = [] then IssueNumber cached else issueNumberFlag E)\<rparr>"

text \<open>The text the specification expects in the cache file once the parameters are
  resolved: the merged parameter set, pretty-printed.\<close>

definition expectedCache :: "lib \<Rightarrow> env \<Rightarrow> world \<Rightarrow> string option" where
  "expectedCache L E w =
     (case inputsFile w of
        None \<Rightarrow> marshalIndent L (flagInputs E)
      | Some data \<Rightarrow>
          (case unmarshalInputs L data of
             None \<Rightarrow> None
           | Some cached \<Rightarrow> marshalIndent L (overrideInputs E cached)))"

text \<open>A JSON value without the members that the fixed record shapes do not have.\<close>

definition knownUser :: "lib \<Rightarrow> json \<Rightarrow> json" where
  "knownUser L j =
     (case j of JObject kvs \<Rightarrow> JObject (filter (\<lambda>(k, v). fieldMatch L ''login'' k) kvs) | _ \<Rightarrow> j)"

definition knownIssue :: "lib \<Rightarrow> json \<Rightarrow> json" where
  "knownIssue L j =
     (case j of
        JObject kvs \<Rightarrow>
          JObject (map (\<lambda>(k, v). (k, if \<not> fieldMatch L ''title'' k \<and> \<not> fieldMatch L ''body'' k \<and>
                                          fieldMatch L ''user'' k then knownUser L v else v))
            (filter (\<lambda>(k, v). fieldMatch L ''title'' k \<or> fieldMatch L ''body'' k \<or>
               fieldMatch L ''user'' k \<or> fieldMatch L ''created_at'' k \<or>
               fieldMatch L ''updated_at'' k) kvs))
      | _ \<Rightarrow> j)"

definition knownComment :: "lib \<Rightarrow> json \<Rightarrow> json" where
  "knownComment L j =
     (case j of
        JObject kvs \<Rightarrow>
          JObject (map (\<lambda>(k, v). (k, if \<not> fieldMatch L ''body'' k \<and> fieldMatch L ''user'' k
                                       then knownUser L v else v))
            (filter (\<lambda>(k, v). fieldMatch L ''body'' k \<or> fieldMatch L ''user'' k \<or>
               fieldMatch L ''created_at'' k) kvs))
      | _ \<Rightarrow> j)"

definition knownComments :: "lib \<Rightarrow> json \<Rightarrow> json" where
  "knownComments L j = (case j of JArray js \<Rightarrow> JArray (map (knownComment L) js) | _ \<Rightarrow> j)"

text \<open>The failures by the place of the run where they happen: before the output file
  exists, while the comments are fetched, and while they are written.\<close>

fun beforeOutput :: "fatal \<Rightarrow> bool" where
  "beforeOutput FatalWriteIssue = False"
| "beforeOutput FatalCreateCommentsRequest = False"
| "beforeOutput FatalSendComments = False"
| "beforeOutput FatalReadCommentsBody = False"
| "beforeOutput (FatalCommentsStatus status) = False"
| "beforeOutput FatalParseComments = False"
| "beforeOutput FatalWriteSpace = False"
| "beforeOutput FatalWriteHeader = False"
| "beforeOutput FatalWriteBody = False"
| "beforeOutput e = True"

fun commentsFetchFailure :: "fatal \<Rightarrow> bool" where
  "commentsFetchFailure FatalCreateCommentsRequest = True"
| "commentsFetchFailure FatalSendComments = True"
| "commentsFetchFailure FatalReadCommentsBody = True"
| "commentsFetchFailure (FatalCommentsStatus status) = True"
| "commentsFetchFailure FatalParseComments = True"
| "commentsFetchFailure e = False"

fun commentsWriteFailure :: "fatal \<Rightarrow> bool" where
  "commentsWriteFailure FatalWriteSpace = True"
| "commentsWriteFailure FatalWriteHeader = True"
| "commentsWriteFailure FatalWriteBody = True"
| "commentsWriteFailure e = False"

section \<open>A concrete run\<close>

text \<open>
  A library and an environment on which the program can be evaluated. The library knows
  four texts: the cache file \<open>{owner: A, repo: B, issueNumber: 1}\<close>, a cache file with an
  empty owner, an issue with a member \<open>labels\<close> that the record does not have, and a
  list of two comments. The server answers the two paths of issue 2 of repository \<open>A/B\<close>.
\<close>

definition exampleTime :: gotime where
  "exampleTime = \<lparr>Year = 2023, Month = 7, Day = 9, Hour = 8, Minute = 5, Second = 30\<rparr>"

definition exampleCache :: json where
  "exampleCache =
     JObject [(''owner'', JString ''A''), (''repo'', JString ''B''), (''issueNumber'', JString ''1'')]"

definition noOwnerCache :: json where
  "noOwnerCache =
     JObject [(''owner'', JString []), (''repo'', JString ''B''), (''issueNumber'', JString ''1'')]"

definition exampleIssue :: json where
  "exampleIssue =
     JObject [(''title'', JString ''T''), (''labels'', JArray []), (''body'', JString ''B''),
              (''user'', JObject [(''login'', JString ''u''), (''id'', JNumber ''7'')]),
              (''created_at'', JString ''2023-07-09T08:05:30Z''),
              (''updated_at'', JString ''2023-07-09T08:05:30Z'')]"

definition exampleComments :: json where
  "exampleComments =
     JArray [JObject [(''body'', JString ''first''), (''user'', JObject [(''login'', JString ''v'')]),
                      (''created_at'', JString ''2023-07-09T08:05:30Z'')],
             JObject [(''id'', JNumber ''2''), (''body'', JString ''second''),
                      (''user'', JObject [(''login'', JString ''u'')])]]"

text \<open>The records that the example issue and comments decode to.\<close>

definition exampleIssueRecord :: Issue where
  "exampleIssueRecord =
     \<lparr>Title = ''T'', Body = ''B'', User = \<lparr>Login = ''u''\<rparr>,
      DateTime = exampleTime, UpdatedAt = exampleTime\<rparr>"

definition exampleCommentRecords :: "Comment list" where
  "exampleCommentRecords =
     [\<lparr>CommentBody = ''first'', CommentUser = \<lparr>Login = ''v''\<rparr>, CommentDateTime = exampleTime\<rparr>,
      \<lparr>CommentBody = ''second'', CommentUser = \<lparr>Login = ''u''\<rparr>, CommentDateTime = zeroTime\<rparr>]"

definition exampleLib :: lib where
  "exampleLib =
     \<lparr>jsonParse = (\<lambda>s. if s = ''cache'' then Some exampleCache
                       else if s = ''cache without owner'' then Some noOwnerCache
                       else if s = ''issue'' then Some exampleIssue
                       else if s = ''comments'' then Some exampleComments
                       else None),
      fieldMatch = (\<lambda>name key. name = key),
      parseTime = (\<lambda>s. if s = ''2023-07-09T08:05:30Z'' then Some exampleTime else None),
      quoteString = (\<lambda>s. [CHR 0x22] @ s @ [CHR 0x22]),
      parseURL = (\<lambda>s. if take 22 s = ''https://api.github.com''
                      then Some \<lparr>Scheme = ''https'', Host = ''api.github.com'', Path = drop 22 s\<rparr>
                      else None)\<rparr>"

definition exampleServer :: "Request \<Rightarrow> http_result" where
  "exampleServer req =
     (if Path (ReqURL req) = ''/repos/A/B/issues/2'' then Response 200 ''200 OK'' (Some ''issue'')
      else if Path (ReqURL req) = ''/repos/A/B/issues/2/comments''
      then Response 200 ''200 OK'' (Some ''comments'')
      else Response 404 ''404 Not Found'' (Some ''{}''))"

definition exampleEnv :: env where
  "exampleEnv =
     \<lparr>ownerFlag = [], repoFlag = [], issueNumberFlag = ''2'',
      getwd = Some ''/work'', readFileOk = True, writeFile = WriteFileOk,
      accessTokenEnv = ''secret'', server = exampleServer, createOk = True,
      writeString = (\<lambda>cur s. None)\<rparr>"

text \<open>The state with the cache file and an output file of an earlier run, and the state
  with no file at all.\<close>

definition cachedWorld :: world where
  "cachedWorld = \<lparr>inputsFile = Some ''cache'', commentsFile = Some ''old'', sent = [], stdout = []\<rparr>"

definition freshWorld :: world where
  "freshWorld = \<lparr>inputsFile = None, commentsFile = None, sent = [], stdout = []\<rparr>"

definition noOwnerWorld :: world where
  "noOwnerWorld = cachedWorld\<lparr>inputsFile := Some ''cache without owner''\<rparr>"

text \<open>The two requests of the example run.\<close>

definition issueRequestExample :: Request where
  "issueRequestExample =
     \<lparr>Method = ''GET'',
      ReqURL = \<lparr>Scheme = ''https'', Host = ''api.github.com'', Path = ''/repos/A/B/issues/2''\<rparr>,
      Authorization = Some ''Bearer secret''\<rparr>"

definition commentsRequestExample :: Request where
  "commentsRequestExample =
     \<lparr>Method = ''GET'',
      ReqURL = \<lparr>Scheme = ''https'', Host = ''api.github.com'',
                Path = ''/repos/A/B/issues/2/comments''\<rparr>,
      Authorization = Some ''Bearer secret''\<rparr>"

text \<open>Variants: the flags \<^verbatim>\<open>-O A -R B -I 3\<close>; no token in the environment; a server whose
  comments endpoint fails; a server whose issue endpoint answers 404 with a body that
  cannot be read; servers whose issue body, or comments body, is not JSON.\<close>

definition noTokenEnv :: env where
  "noTokenEnv = exampleEnv\<lparr>accessTokenEnv := []\<rparr>"

definition allFlagsEnv :: env where
  "allFlagsEnv = exampleEnv\<lparr>ownerFlag := ''A'', repoFlag := ''B'', issueNumberFlag := ''3''\<rparr>"

definition commentsDownServer :: "Request \<Rightarrow> http_result" where
  "commentsDownServer req =
     (if Path (ReqURL req) = ''/repos/A/B/issues/2'' then Response 200 ''200 OK'' (Some ''issue'')
      else Response 500 ''500 Internal Server Error'' (Some []))"

definition brokenBodyServer :: "Request \<Rightarrow> http_result" where
  "brokenBodyServer req = Response 404 ''404 Not Found'' None"

definition malformedIssueServer :: "Request \<Rightarrow> http_result" where
  "malformedIssueServer req = Response 200 ''200 OK'' (Some ''<html>'')"

definition malformedCommentsServer :: "Request \<Rightarrow> http_result" where
  "malformedCommentsServer req =
     (if Path (ReqURL req) = ''/repos/A/B/issues/2'' then Response 200 ''200 OK'' (Some ''issue'')
      else Response 200 ''200 OK'' (Some ''[1, 2''))"

definition malformedIssueEnv :: env where
  "malformedIssueEnv = exampleEnv\<lparr>server := malformedIssueServer\<rparr>"

definition malformedCommentsEnv :: env where
  "malformedCommentsEnv = exampleEnv\<lparr>server := malformedCommentsServer\<rparr>"

definition commentsDownEnv :: env where
  "commentsDownEnv = exampleEnv\<lparr>server := commentsDownServer\<rparr>"

definition brokenBodyEnv :: env where
  "brokenBodyEnv = exampleEnv\<lparr>server := brokenBodyServer\<rparr>"

section \<open>The steps of a run\<close>

subsection \<open>The cache file\<close>

lemma osWriteFile_keeps:
  "osWriteFile E d w = (ok, w') \<Longrightarrow>
     sent w' = sent w \<and> commentsFile w' = commentsFile w \<and> stdout w' = stdout w"
  by (auto simp: osWriteFile_def split: write_file_result.splits)

lemma osWriteFile_True:
  "osWriteFile E d w = (True, w') \<longleftrightarrow> writeFile E = WriteFileOk \<and> w' = w\<lparr>inputsFile := Some d\<rparr>"
  by (auto simp: osWriteFile_def split: write_file_result.splits)

lemma updateInputsInFile_keeps:
  "updateInputsInFile L E a b c w = (r, w') \<Longrightarrow>
     sent w' = sent w \<and> commentsFile w' = commentsFile w \<and> stdout w' = stdout w"
  by (auto simp: updateInputsInFile_def Let_def marshalIndent_def split: prod.splits if_splits
      dest: osWriteFile_keeps)

lemma updateInputsInFile_None:
  "updateInputsInFile L E a b c w = (None, w') \<Longrightarrow>
     writeFile E = WriteFileOk \<and>
     w' = w\<lparr>inputsFile := marshalIndent L \<lparr>Owner = a, Repo = b, IssueNumber = c\<rparr>\<rparr>"
  by (auto simp: updateInputsInFile_def Let_def marshalIndent_def osWriteFile_True
      split: prod.splits if_splits bool.splits)

lemma main_inputs_keeps:
  "main_inputs L E w = (r, w') \<Longrightarrow>
     sent w' = sent w \<and> commentsFile w' = commentsFile w \<and> stdout w' = stdout w"
  unfolding main_inputs_def Let_def
  by (auto split: sum.splits if_splits prod.splits option.splits
      dest: osWriteFile_keeps updateInputsInFile_keeps)

lemma main_inputs_fresh:
  assumes "inputsFile w = None" and "main_inputs L E w = (Inr cur, w')"
  shows "cur = ([], [], []) \<and> getwd E \<noteq> None \<and> writeFile E = WriteFileOk \<and>
         w' = w\<lparr>inputsFile := marshalIndent L (flagInputs E)\<rparr>"
  using assms unfolding main_inputs_def Let_def flagInputs_def getAbsolutePath_def
  by (auto simp: osWriteFile_True marshalIndent_def split: sum.splits if_splits prod.splits option.splits)

lemma main_inputs_cached:
  assumes "inputsFile w = Some data" and "main_inputs L E w = (Inr cur, w')"
  shows "\<exists>cached. readInputsFromFile L E w = Inr cached \<and> Owner cached \<noteq> [] \<and> Repo cached \<noteq> [] \<and>
           getwd E \<noteq> None \<and> writeFile E = WriteFileOk \<and>
           cur = (Owner (overrideInputs E cached), Repo (overrideInputs E cached),
                  IssueNumber (overrideInputs E cached)) \<and>
           w' = w\<lparr>inputsFile := marshalIndent L (overrideInputs E cached)\<rparr>"
  using assms unfolding main_inputs_def Let_def overrideInputs_def getAbsolutePath_def
  by (auto split: sum.splits if_splits prod.splits option.splits dest!: updateInputsInFile_None)

lemma clientDo_eq: "clientDo E req w = (r, w') \<longleftrightarrow> r = server E req \<and> w' = w\<lparr>sent := sent w @ [req]\<rparr>"
  by (auto simp: clientDo_def)

lemma main_issue_eq:
  "main_issue L E tok owner repo num w = (r, w') \<longleftrightarrow>
     (case issueRequest L tok owner repo num of
        None \<Rightarrow> r = Inl FatalCreateRequest \<and> w' = w
      | Some req \<Rightarrow> issueResponse L (server E req) = r \<and> w' = w\<lparr>sent := sent w @ [req]\<rparr>)"
  by (auto simp: main_issue_def clientDo_def split: option.splits)

lemma main_comments_eq:
  "main_comments L E tok owner repo num w = (r, w') \<longleftrightarrow>
     (case commentsRequest L tok owner repo num of
        None \<Rightarrow> r = Inl FatalCreateCommentsRequest \<and> w' = w
      | Some req \<Rightarrow> commentsResponse L (server E req) = r \<and> w' = w\<lparr>sent := sent w @ [req]\<rparr>)"
  by (auto simp: main_comments_def clientDo_def split: option.splits)

lemma issueResponse_Inr:
  "issueResponse L resp = Inr issue \<longleftrightarrow>
     (\<exists>status body. resp = Response 200 status (Some body) \<and> unmarshalIssue L body = Some issue)"
  by (auto simp: issueResponse_def split: http_result.splits option.splits)

lemma commentsResponse_Inr:
  "commentsResponse L resp = Inr comments \<longleftrightarrow>
     (\<exists>status body. resp = Response 200 status (Some body) \<and>
        unmarshalComments L body = Some comments)"
  by (auto simp: commentsResponse_def split: http_result.splits option.splits)

lemma issueRequest_Path:
  "issueRequest L tok owner repo num = Some req \<Longrightarrow> Path (ReqURL req) = issuePath owner repo num"
  by (auto simp: issueRequest_def Let_def split: option.splits if_splits)

subsection \<open>The output file\<close>

lemma fileWriteString_result:
  assumes "commentsFile w = Some cur" and "fileWriteString E s w = (ok, w')"
  shows "\<exists>p. w' = w\<lparr>commentsFile := Some (cur @ p)\<rparr> \<and> prefix p s \<and> (ok \<longrightarrow> p = s)"
  using assms by (auto simp: fileWriteString_def take_is_prefix split: option.splits)

lemma main_writeIssue_result:
  assumes "main_writeIssue E issue w = (r, w')"
  shows "(r = Some FatalCreateFile \<and> w' = w) \<or>
         (\<exists>p. w' = w\<lparr>commentsFile := Some p\<rparr> \<and> prefix p (issueLine issue) \<and>
              (r = None \<and> p = issueLine issue \<or> r = Some FatalWriteIssue))"
  using assms unfolding main_writeIssue_def osCreate_def Let_def
  by (auto simp: fileWriteString_def take_is_prefix split: if_splits prod.splits option.splits)

lemma writeComments_result:
  assumes "commentsFile w = Some cur" and "writeComments E i comments w = (r, w')"
  shows "\<exists>p. w' = w\<lparr>commentsFile := Some (cur @ p)\<rparr> \<and> prefix p (loopText i comments) \<and>
           (r = None \<and> p = loopText i comments \<or>
            r = Some FatalWriteSpace \<or> r = Some FatalWriteHeader \<or> r = Some FatalWriteBody)"
  using assms
proof (induction comments arbitrary: i w cur)
  case Nil
  then show ?case by auto
next
  case (Cons c cs)
  define t1 where "t1 = (if i > 0 then ''\<newline>'' else [])"
  define t2 where "t2 = commentHeader i c @ '':\<newline>''"
  define t3 where "t3 = CommentBody c @ ''\<newline>''"
  have lt: "loopText i (c # cs) = t1 @ t2 @ t3 @ loopText (i + 1) cs"
    by (simp add: t1_def t2_def t3_def)
  obtain ok1 w1 where s1: "(if i > 0 then fileWriteString E ''\<newline>'' w else (True, w)) = (ok1, w1)"
    by fastforce
  obtain p1 where p1: "w1 = w\<lparr>commentsFile := Some (cur @ p1)\<rparr>" "prefix p1 t1" "ok1 \<longrightarrow> p1 = t1"
  proof (cases "i > 0")
    case True
    with s1 fileWriteString_result [OF Cons.prems(1), of E "''\<newline>''" ok1 w1] that show thesis
      by (auto simp: t1_def)
  next
    case False
    with s1 Cons.prems(1) that [of "[]"] show thesis by (auto simp: t1_def)
  qed
  obtain ok2 w2 where s2: "fileWriteString E t2 w1 = (ok2, w2)"
    by fastforce
  obtain ok3 w3 where s3: "fileWriteString E t3 w2 = (ok3, w3)"
    by fastforce
  have run: "writeComments E i (c # cs) w =
      (if \<not> ok1 then (Some FatalWriteSpace, w1)
       else if \<not> ok2 then (Some FatalWriteHeader, w2)
       else if \<not> ok3 then (Some FatalWriteBody, w3)
       else writeComments E (i + 1) cs w3)"
    using s1 s2 s3 by (simp add: Let_def t2_def t3_def)
  show ?case
  proof (cases ok1)
    case False
    with run Cons.prems(2) have r: "r = Some FatalWriteSpace" "w' = w1" by auto
    have "prefix p1 (loopText i (c # cs))"
      unfolding lt using p1(2) by (rule prefix_prefix)
    with r p1(1) show ?thesis by blast
  next
    case ok1: True
    then have e1: "p1 = t1" using p1(3) by simp
    have c1: "commentsFile w1 = Some (cur @ t1)" using p1(1) e1 by simp
    from fileWriteString_result [OF c1 s2] obtain p2 where
      p2: "w2 = w1\<lparr>commentsFile := Some ((cur @ t1) @ p2)\<rparr>" "prefix p2 t2" "ok2 \<longrightarrow> p2 = t2"
      by blast
    have w2: "w2 = w\<lparr>commentsFile := Some (cur @ t1 @ p2)\<rparr>" using p2(1) p1(1) by simp
    show ?thesis
    proof (cases ok2)
      case False
      with run ok1 Cons.prems(2) have r: "r = Some FatalWriteHeader" "w' = w2" by auto
      have "prefix (t1 @ p2) (loopText i (c # cs))"
        unfolding lt using p2(2) by (simp add: prefix_prefix)
      with r w2 show ?thesis by blast
    next
      case ok2: True
      then have e2: "p2 = t2" using p2(3) by simp
      have c2: "commentsFile w2 = Some (cur @ t1 @ t2)" using w2 e2 by simp
      from fileWriteString_result [OF c2 s3] obtain p3 where
        p3: "w3 = w2\<lparr>commentsFile := Some ((cur @ t1 @ t2) @ p3)\<rparr>" "prefix p3 t3"
          "ok3 \<longrightarrow> p3 = t3"
        by blast
      have w3: "w3 = w\<lparr>commentsFile := Some (cur @ t1 @ t2 @ p3)\<rparr>" using p3(1) w2 by simp
      show ?thesis
      proof (cases ok3)
        case False
        with run ok1 ok2 Cons.prems(2) have r: "r = Some FatalWriteBody" "w' = w3" by auto
        have "prefix (t1 @ t2 @ p3) (loopText i (c # cs))"
          unfolding lt using p3(2) by (simp add: prefix_prefix)
        with r w3 show ?thesis by blast
      next
        case ok3: True
        then have e3: "p3 = t3" using p3(3) by simp
        have c3: "commentsFile w3 = Some (cur @ t1 @ t2 @ t3)" using w3 e3 by simp
        from run ok1 ok2 ok3 Cons.prems(2)
        have rec: "writeComments E (i + 1) cs w3 = (r, w')" by simp
        from Cons.IH [OF c3 rec] obtain p where
          p: "w' = w3\<lparr>commentsFile := Some ((cur @ t1 @ t2 @ t3) @ p)\<rparr>"
            "prefix p (loopText (i + 1) cs)"
            "r = None \<and> p = loopText (i + 1) cs \<or>
             r = Some FatalWriteSpace \<or> r = Some FatalWriteHeader \<or> r = Some FatalWriteBody"
          by blast
        have w': "w' = w\<lparr>commentsFile := Some (cur @ (t1 @ t2 @ t3 @ p))\<rparr>"
          using p(1) w3 by simp
        have pre: "prefix (t1 @ t2 @ t3 @ p) (loopText i (c # cs))"
          unfolding lt using p(2) by simp
        have res: "r = None \<and> t1 @ t2 @ t3 @ p = loopText i (c # cs) \<or>
             r = Some FatalWriteSpace \<or> r = Some FatalWriteHeader \<or> r = Some FatalWriteBody"
          unfolding lt using p(3) by auto
        from w' pre res show ?thesis by blast
      qed
    qed
  qed
qed

subsection \<open>The text of the transcript\<close>

declare itoa.simps [simp del]

lemma digit_0: "digit 0 = CHR ''0''"
  by (simp add: digit_def)

lemma digits_0: "digits k 0 = replicate k (CHR ''0'')"
  by (induction k) (simp_all add: digit_0 replicate_append_same)

lemma itoa_small: "n < 10 \<Longrightarrow> itoa n = [digit n]"
  by (subst itoa.simps) simp

lemma itoa_large: "\<not> n < 10 \<Longrightarrow> itoa n = itoa (n div 10) @ [digit (n mod 10)]"
  by (subst itoa.simps) simp

lemma length_itoa_pos: "0 < length (itoa n)"
  by (cases "n < 10") (simp_all add: itoa_small itoa_large)

lemma zeroPad_digits: "0 < k \<Longrightarrow> n < 10 ^ k \<Longrightarrow> zeroPad k n = digits k n"
proof (induction k arbitrary: n)
  case 0
  then show ?case by simp
next
  case (Suc k)
  show ?case
  proof (cases "n < 10")
    case True
    then show ?thesis
      by (simp add: zeroPad_def itoa_small digits_0)
  next
    case False
    with Suc.prems have k: "0 < k" by (cases k) auto
    from Suc.prems have "n div 10 < 10 ^ k" by (simp add: less_mult_imp_div_less mult.commute)
    from Suc.IH [OF k this] have "zeroPad k (n div 10) = digits k (n div 10)" .
    moreover have "zeroPad (Suc k) n = zeroPad k (n div 10) @ [digit (n mod 10)]"
      using False by (simp add: zeroPad_def itoa_large)
    ultimately show ?thesis by simp
  qed
qed

lemma digits_2: "digits 2 n = [digit (n div 10 mod 10), digit (n mod 10)]"
proof -
  have "(2::nat) = Suc (Suc 0)" by simp
  then show ?thesis by (simp only: digits.simps append.simps)
qed

lemma digits_4:
  "digits 4 n = [digit (n div 10 div 10 div 10 mod 10), digit (n div 10 div 10 mod 10),
                 digit (n div 10 mod 10), digit (n mod 10)]"
proof -
  have "(4::nat) = Suc (Suc (Suc (Suc 0)))" by simp
  then show ?thesis by (simp only: digits.simps append.simps)
qed

lemma formatTime_timestamp: "fitsLayout t \<Longrightarrow> formatTime t = timestamp t"
  by (simp add: fitsLayout_def formatTime_def timestamp_def zeroPad_digits)

lemma unlines_Nil: "unlines [] = []"
  by (simp add: unlines_def)

lemma unlines_Cons: "unlines (l # ls) = l @ ''\<newline>'' @ unlines ls"
  by (simp add: unlines_def)

lemma enumerate_eq_Nil: "enumerate n xs = [] \<longleftrightarrow> xs = []"
  by (cases xs) simp_all

lemma unlines_append: "unlines (xs @ ys) = unlines xs @ unlines ys"
  by (simp add: unlines_def)

lemma separated_Cons: "separated (b # bs) = b @ (if bs = [] then [] else [''''] @ separated bs)"
  by (cases bs) simp_all

lemma loopText_lines:
  assumes "\<forall>c \<in> set comments. fitsLayout (CommentDateTime c)"
  shows "loopText i comments =
           (if i > 0 \<and> comments \<noteq> [] then ''\<newline>'' else []) @
           unlines (separated (map (\<lambda>(i, c). commentBlock i c) (enumerate (Suc i) comments)))"
  using assms
proof (induction comments arbitrary: i)
  case Nil
  then show ?case by (simp add: unlines_def)
next
  case (Cons c cs)
  have block: "unlines (commentBlock (Suc i) c) =
      commentHeader i c @ '':\<newline>'' @ CommentBody c @ ''\<newline>''"
    using Cons.prems by (simp add: unlines_def commentBlock_def commentHeader_def formatTime_timestamp)
  have rest: "loopText (Suc i) cs =
      (if cs \<noteq> [] then ''\<newline>'' else []) @
      unlines (separated (map (\<lambda>(i, c). commentBlock i c) (enumerate (Suc (Suc i)) cs)))"
    using Cons.IH [of "Suc i"] Cons.prems by simp
  have "loopText i (c # cs) =
      (if i > 0 then ''\<newline>'' else []) @ unlines (commentBlock (Suc i) c) @ loopText (Suc i) cs"
    by (simp add: block)
  also have "unlines (commentBlock (Suc i) c) @ loopText (Suc i) cs =
      unlines (separated (map (\<lambda>(i, c). commentBlock i c) (enumerate (Suc i) (c # cs))))"
    unfolding rest
    by (simp add: separated_Cons unlines_append unlines_Cons unlines_Nil enumerate_eq_Nil)
  finally show ?case by simp
qed

lemma issueLine_lines:
  assumes "fitsLayout (DateTime issue)" and "fitsLayout (UpdatedAt issue)"
  shows "issueLine issue = unlines (issueHeaderBlock issue @ [''''])"
  using assms by (simp add: issueLine_def issueHeaderBlock_def unlines_def formatTime_timestamp)

lemma transcript_eq:
  assumes "fitsLayout (DateTime issue)" and "fitsLayout (UpdatedAt issue)"
    and "\<forall>c \<in> set comments. fitsLayout (CommentDateTime c)"
  shows "issueLine issue @ loopText 0 comments = transcript issue comments"
  using assms
  by (simp add: transcript_def transcriptLines_def loopText_lines issueLine_lines
      unlines_append unlines_Cons unlines_Nil del: loopText.simps)

subsection \<open>Decoded timestamps\<close>

lemma decodeMembers_invariant:
  assumes "\<And>k v y y'. P y \<Longrightarrow> f k v y = Some y' \<Longrightarrow> P y'"
    and "P x" and "decodeMembers f kvs x = Some x'"
  shows "P x'"
  using assms(2,3)
proof (induction kvs arbitrary: x)
  case Nil
  then show ?case by simp
next
  case (Cons kv kvs)
  obtain k v where kv: "kv = (k, v)" by (cases kv)
  from Cons.prems(2) obtain y where y: "f k v x = Some y" "decodeMembers f kvs y = Some x'"
    by (auto simp: kv split: option.splits)
  from assms(1) [OF Cons.prems(1) y(1)] have "P y" .
  from Cons.IH [OF this y(2)] show ?case .
qed

lemma decodeStruct_invariant:
  assumes "\<And>k v y y'. P y \<Longrightarrow> f k v y = Some y' \<Longrightarrow> P y'"
    and "P x" and "decodeStruct f j x = Some x'"
  shows "P x'"
  using assms(2,3) decodeMembers_invariant [of P f x _ x', OF assms(1)]
  by (auto simp: decodeStruct_def split: json.splits)

lemma fitsLayout_zeroTime: "fitsLayout zeroTime"
  by (simp add: fitsLayout_def zeroTime_def)

lemma decodeTime_fits:
  assumes "\<forall>s t. parseTime L s = Some t \<longrightarrow> fitsLayout t"
    and "fitsLayout cur" and "decodeTime L v cur = Some t"
  shows "fitsLayout t"
  using assms by (auto simp: decodeTime_def split: json.splits)

lemma unmarshalIssue_fits:
  assumes "\<forall>s t. parseTime L s = Some t \<longrightarrow> fitsLayout t"
    and "unmarshalIssue L body = Some issue"
  shows "fitsLayout (DateTime issue) \<and> fitsLayout (UpdatedAt issue)"
proof -
  from assms(2) obtain j where j: "decodeStruct (issueMember L) j zeroIssue = Some issue"
    by (auto simp: unmarshalIssue_def decodeIssue_def split: option.splits)
  show ?thesis
  proof (rule decodeStruct_invariant [where P = "\<lambda>i. fitsLayout (DateTime i) \<and> fitsLayout (UpdatedAt i)", OF _ _ j])
    fix k v y y'
    assume "fitsLayout (DateTime y) \<and> fitsLayout (UpdatedAt y)" and "issueMember L k v y = Some y'"
    then show "fitsLayout (DateTime y') \<and> fitsLayout (UpdatedAt y')"
      using assms(1) by (auto simp: issueMember_def split: if_splits dest: decodeTime_fits)
  next
    show "fitsLayout (DateTime zeroIssue) \<and> fitsLayout (UpdatedAt zeroIssue)"
      by (simp add: zeroIssue_def fitsLayout_zeroTime)
  qed
qed

lemma decodeComment_fits:
  assumes "\<forall>s t. parseTime L s = Some t \<longrightarrow> fitsLayout t"
    and "decodeComment L j zeroComment = Some c"
  shows "fitsLayout (CommentDateTime c)"
proof (rule decodeStruct_invariant [where P = "\<lambda>c. fitsLayout (CommentDateTime c)", OF _ _ assms(2) [unfolded decodeComment_def]])
  fix k v y y'
  assume "fitsLayout (CommentDateTime y)" and "commentMember L k v y = Some y'"
  then show "fitsLayout (CommentDateTime y')"
    using assms(1) by (auto simp: commentMember_def split: if_splits dest: decodeTime_fits)
next
  show "fitsLayout (CommentDateTime zeroComment)"
    by (simp add: zeroComment_def fitsLayout_zeroTime)
qed

lemma decodeElements_fits:
  assumes "\<forall>s t. parseTime L s = Some t \<longrightarrow> fitsLayout t"
    and "decodeElements L js = Some cs"
  shows "\<forall>c \<in> set cs. fitsLayout (CommentDateTime c)"
  using assms(2)
  by (induction js arbitrary: cs) (auto split: option.splits dest: decodeComment_fits [OF assms(1)])

lemma unmarshalComments_fits:
  assumes "\<forall>s t. parseTime L s = Some t \<longrightarrow> fitsLayout t"
    and "unmarshalComments L body = Some comments"
  shows "\<forall>c \<in> set comments. fitsLayout (CommentDateTime c)"
  using assms(2) decodeElements_fits [OF assms(1)]
  by (auto simp: unmarshalComments_def decodeComments_def split: option.splits json.splits)

subsection \<open>Where a run ends\<close>

lemma main_Inputs: "main_inputs L E w = (Inl e, w1) \<Longrightarrow> main L E w = (Some e, w1)"
  by (simp add: main_def)

lemma main_Token:
  "main_inputs L E w = (Inr (owner, repo, num), w1) \<Longrightarrow> accessTokenEnv E = [] \<Longrightarrow>
     main L E w = (Some PanicNoToken, w1)"
  by (simp add: main_def)

lemma main_Issue:
  "main_inputs L E w = (Inr (owner, repo, num), w1) \<Longrightarrow> accessTokenEnv E \<noteq> [] \<Longrightarrow>
   main_issue L E (accessTokenEnv E) owner repo num w1 = (Inl e, w2) \<Longrightarrow>
     main L E w = (Some e, w2)"
  by (simp add: main_def)

lemma main_WriteIssue:
  "main_inputs L E w = (Inr (owner, repo, num), w1) \<Longrightarrow> accessTokenEnv E \<noteq> [] \<Longrightarrow>
   main_issue L E (accessTokenEnv E) owner repo num w1 = (Inr issue, w2) \<Longrightarrow>
   main_writeIssue E issue w2 = (Some e, w3) \<Longrightarrow>
     main L E w = (Some e, w3)"
  by (simp add: main_def)

lemma main_Comments:
  "main_inputs L E w = (Inr (owner, repo, num), w1) \<Longrightarrow> accessTokenEnv E \<noteq> [] \<Longrightarrow>
   main_issue L E (accessTokenEnv E) owner repo num w1 = (Inr issue, w2) \<Longrightarrow>
   main_writeIssue E issue w2 = (None, w3) \<Longrightarrow>
   main_comments L E (accessTokenEnv E) owner repo num w3 = (Inl e, w4) \<Longrightarrow>
     main L E w = (Some e, w4)"
  by (simp add: main_def)

lemma main_Loop:
  "main_inputs L E w = (Inr (owner, repo, num), w1) \<Longrightarrow> accessTokenEnv E \<noteq> [] \<Longrightarrow>
   main_issue L E (accessTokenEnv E) owner repo num w1 = (Inr issue, w2) \<Longrightarrow>
   main_writeIssue E issue w2 = (None, w3) \<Longrightarrow>
   main_comments L E (accessTokenEnv E) owner repo num w3 = (Inr comments, w4) \<Longrightarrow>
   writeComments E 0 comments w4 = (Some e, w5) \<Longrightarrow>
     main L E w = (Some e, w5)"
  by (simp add: main_def)

lemma main_Done:
  "main_inputs L E w = (Inr (owner, repo, num), w1) \<Longrightarrow> accessTokenEnv E \<noteq> [] \<Longrightarrow>
   main_issue L E (accessTokenEnv E) owner repo num w1 = (Inr issue, w2) \<Longrightarrow>
   main_writeIssue E issue w2 = (None, w3) \<Longrightarrow>
   main_comments L E (accessTokenEnv E) owner repo num w3 = (Inr comments, w4) \<Longrightarrow>
   writeComments E 0 comments w4 = (None, w5) \<Longrightarrow>
     main L E w = (None, w5\<lparr>stdout := stdout w5 @
         [''Issue details and comments have been fetched and saved to comments.txt.'']\<rparr>)"
  by (simp add: main_def)

lemma main_cases [case_names Inputs Token Issue WriteIssue Comments Loop Done]:
  obtains
    (Inputs) e w1 where
      "main_inputs L E w = (Inl e, w1)" "main L E w = (Some e, w1)"
  | (Token) owner repo num w1 where
      "main_inputs L E w = (Inr (owner, repo, num), w1)" "accessTokenEnv E = []"
      "main L E w = (Some PanicNoToken, w1)"
  | (Issue) owner repo num w1 e w2 where
      "main_inputs L E w = (Inr (owner, repo, num), w1)" "accessTokenEnv E \<noteq> []"
      "main_issue L E (accessTokenEnv E) owner repo num w1 = (Inl e, w2)"
      "main L E w = (Some e, w2)"
  | (WriteIssue) owner repo num w1 issue w2 e w3 where
      "main_inputs L E w = (Inr (owner, repo, num), w1)" "accessTokenEnv E \<noteq> []"
      "main_issue L E (accessTokenEnv E) owner repo num w1 = (Inr issue, w2)"
      "main_writeIssue E issue w2 = (Some e, w3)"
      "main L E w = (Some e, w3)"
  | (Comments) owner repo num w1 issue w2 w3 e w4 where
      "main_inputs L E w = (Inr (owner, repo, num), w1)" "accessTokenEnv E \<noteq> []"
      "main_issue L E (accessTokenEnv E) owner repo num w1 = (Inr issue, w2)"
      "main_writeIssue E issue w2 = (None, w3)"
      "main_comments L E (accessTokenEnv E) owner repo num w3 = (Inl e, w4)"
      "main L E w = (Some e, w4)"
  | (Loop) owner repo num w1 issue w2 w3 comments w4 e w5 where
      "main_inputs L E w = (Inr (owner, repo, num), w1)" "accessTokenEnv E \<noteq> []"
      "main_issue L E (accessTokenEnv E) owner repo num w1 = (Inr issue, w2)"
      "main_writeIssue E issue w2 = (None, w3)"
      "main_comments L E (accessTokenEnv E) owner repo num w3 = (Inr comments, w4)"
      "writeComments E 0 comments w4 = (Some e, w5)"
      "main L E w = (Some e, w5)"
  | (Done) owner repo num w1 issue w2 w3 comments w4 w5 where
      "main_inputs L E w = (Inr (owner, repo, num), w1)" "accessTokenEnv E \<noteq> []"
      "main_issue L E (accessTokenEnv E) owner repo num w1 = (Inr issue, w2)"
      "main_writeIssue E issue w2 = (None, w3)"
      "main_comments L E (accessTokenEnv E) owner repo num w3 = (Inr comments, w4)"
      "writeComments E 0 comments w4 = (None, w5)"
      "main L E w = (None, w5\<lparr>stdout := stdout w5 @
         [''Issue details and comments have been fetched and saved to comments.txt.'']\<rparr>)"
proof -
  obtain r1 w1 where s1: "main_inputs L E w = (r1, w1)" by fastforce
  show thesis
  proof (cases r1)
    case (Inl e)
    note s1 = s1 [unfolded Inl]
    show thesis by (rule Inputs [OF s1 main_Inputs [OF s1]])
  next
    case (Inr cur)
    obtain owner repo num where cur: "cur = (owner, repo, num)" by (cases cur) auto
    note s1 = s1 [unfolded Inr cur]
    show thesis
    proof (cases "accessTokenEnv E = []")
      case True
      show thesis by (rule Token [OF s1 True main_Token [OF s1 True]])
    next
      case tok: False
      obtain r2 w2 where s2: "main_issue L E (accessTokenEnv E) owner repo num w1 = (r2, w2)"
        by fastforce
      show thesis
      proof (cases r2)
        case (Inl e)
        note s2 = s2 [unfolded Inl]
        show thesis by (rule Issue [OF s1 tok s2 main_Issue [OF s1 tok s2]])
      next
        case (Inr issue)
        note s2 = s2 [unfolded Inr]
        obtain r3 w3 where s3: "main_writeIssue E issue w2 = (r3, w3)" by fastforce
        show thesis
        proof (cases r3)
          case (Some e)
          note s3 = s3 [unfolded Some]
          show thesis by (rule WriteIssue [OF s1 tok s2 s3 main_WriteIssue [OF s1 tok s2 s3]])
        next
          case None
          note s3 = s3 [unfolded None]
          obtain r4 w4 where
            s4: "main_comments L E (accessTokenEnv E) owner repo num w3 = (r4, w4)"
            by fastforce
          show thesis
          proof (cases r4)
            case (Inl e)
            note s4 = s4 [unfolded Inl]
            show thesis by (rule Comments [OF s1 tok s2 s3 s4 main_Comments [OF s1 tok s2 s3 s4]])
          next
            case (Inr comments)
            note s4 = s4 [unfolded Inr]
            obtain r5 w5 where s5: "writeComments E 0 comments w4 = (r5, w5)" by fastforce
            show thesis
            proof (cases r5)
              case (Some e)
              note s5 = s5 [unfolded Some]
              show thesis by (rule Loop [OF s1 tok s2 s3 s4 s5 main_Loop [OF s1 tok s2 s3 s4 s5]])
            next
              case None
              note s5 = s5 [unfolded None]
              show thesis by (rule Done [OF s1 tok s2 s3 s4 s5 main_Done [OF s1 tok s2 s3 s4 s5]])
            qed
          qed
        qed
      qed
    qed
  qed
qed

lemma main_issue_keeps:
  "main_issue L E tok owner repo num w = (r, w') \<Longrightarrow>
     inputsFile w' = inputsFile w \<and> commentsFile w' = commentsFile w \<and> stdout w' = stdout w"
  by (auto simp: main_issue_eq split: option.splits)

lemma main_comments_keeps:
  "main_comments L E tok owner repo num w = (r, w') \<Longrightarrow>
     inputsFile w' = inputsFile w \<and> commentsFile w' = commentsFile w \<and> stdout w' = stdout w"
  by (auto simp: main_comments_eq split: option.splits)

lemma main_writeIssue_keeps:
  "main_writeIssue E issue w = (r, w') \<Longrightarrow>
     inputsFile w' = inputsFile w \<and> sent w' = sent w \<and> stdout w' = stdout w"
  by (auto dest!: main_writeIssue_result)

lemma main_writeIssue_None:
  "main_writeIssue E issue w = (None, w') \<Longrightarrow> w' = w\<lparr>commentsFile := Some (issueLine issue)\<rparr>"
  by (auto dest!: main_writeIssue_result)

lemma main_after_inputs:
  assumes "main_inputs L E w = (r, w1)"
  shows "inputsFile (snd (main L E w)) = inputsFile w1"
proof (cases rule: main_cases [of L E w])
  case (Inputs e w1)
  with assms show ?thesis by simp
next
  case (Token owner repo num w1)
  with assms show ?thesis by simp
next
  case (Issue owner repo num w1' e w2)
  from main_issue_keeps [OF Issue(3)] Issue(1,4) assms show ?thesis by simp
next
  case (WriteIssue owner repo num w1' issue w2 e w3)
  from main_issue_keeps [OF WriteIssue(3)] main_writeIssue_keeps [OF WriteIssue(4)]
    WriteIssue(1,5) assms
  show ?thesis by simp
next
  case (Comments owner repo num w1' issue w2 w3 e w4)
  from main_issue_keeps [OF Comments(3)] main_writeIssue_keeps [OF Comments(4)]
    main_comments_keeps [OF Comments(5)] Comments(1,6) assms
  show ?thesis by simp
next
  case (Loop owner repo num w1' issue w2 w3 comments w4 e w5)
  from main_writeIssue_None [OF Loop(4)] main_comments_keeps [OF Loop(5)]
  have "commentsFile w4 = Some (issueLine issue)" by simp
  from writeComments_result [OF this Loop(6)] have "inputsFile w5 = inputsFile w4" by auto
  with main_issue_keeps [OF Loop(3)] main_writeIssue_keeps [OF Loop(4)]
    main_comments_keeps [OF Loop(5)] Loop(1,7) assms
  show ?thesis by simp
next
  case (Done owner repo num w1' issue w2 w3 comments w4 w5)
  from main_writeIssue_None [OF Done(4)] main_comments_keeps [OF Done(5)]
  have "commentsFile w4 = Some (issueLine issue)" by simp
  from writeComments_result [OF this Done(6)] have "inputsFile w5 = inputsFile w4" by auto
  with main_issue_keeps [OF Done(3)] main_writeIssue_keeps [OF Done(4)]
    main_comments_keeps [OF Done(5)] Done(1,7) assms
  show ?thesis by simp
qed

lemma main_issue_Inr:
  assumes "main_issue L E tok owner repo num w = (Inr issue, w')"
  shows "\<exists>req status body. issueRequest L tok owner repo num = Some req \<and>
           w' = w\<lparr>sent := sent w @ [req]\<rparr> \<and>
           server E req = Response 200 status (Some body) \<and> unmarshalIssue L body = Some issue"
  using assms by (auto simp: main_issue_eq issueResponse_Inr split: option.splits)

lemma main_comments_Inr:
  assumes "main_comments L E tok owner repo num w = (Inr comments, w')"
  shows "\<exists>req status body. commentsRequest L tok owner repo num = Some req \<and>
           w' = w\<lparr>sent := sent w @ [req]\<rparr> \<and>
           server E req = Response 200 status (Some body) \<and>
           unmarshalComments L body = Some comments"
  using assms by (auto simp: main_comments_eq commentsResponse_Inr split: option.splits)

lemma main_issue_Inl:
  assumes "main_issue L E tok owner repo num w = (Inl e, w')"
  shows "(e = FatalCreateRequest \<and> w' = w) \<or>
         (\<exists>req. w' = w\<lparr>sent := sent w @ [req]\<rparr> \<and> issueResponse L (server E req) = Inl e)"
  using assms by (auto simp: main_issue_eq split: option.splits)

lemma main_comments_Inl:
  assumes "main_comments L E tok owner repo num w = (Inl e, w')"
  shows "(e = FatalCreateCommentsRequest \<and> w' = w) \<or>
         (\<exists>req. w' = w\<lparr>sent := sent w @ [req]\<rparr> \<and> commentsResponse L (server E req) = Inl e)"
  using assms by (auto simp: main_comments_eq split: option.splits)

lemma issueResponse_Inl:
  "issueResponse L resp = Inl e \<Longrightarrow>
     e = FatalSendRequest \<or> e = FatalReadBody \<or> (\<exists>s. e = FatalStatus s) \<or> e = FatalParseIssue"
  by (auto simp: issueResponse_def split: http_result.splits option.splits if_splits)

lemma commentsResponse_Inl:
  "commentsResponse L resp = Inl e \<Longrightarrow>
     e = FatalSendComments \<or> e = FatalReadCommentsBody \<or> (\<exists>s. e = FatalCommentsStatus s) \<or>
     e = FatalParseComments"
  by (auto simp: commentsResponse_def split: http_result.splits option.splits if_splits)

lemma main_inputs_Inl:
  "main_inputs L E w = (Inl e, w') \<Longrightarrow>
     e = PanicGetwd \<or> e = PanicReadInputs \<or> e = PanicParseInputs \<or> e = PanicEmptyOwnerRepo \<or>
     e = PanicMarshalUpdated \<or> e = PanicWriteUpdated \<or> e = PanicMarshalNew \<or> e = PanicWriteNew"
  by (auto simp: main_inputs_def getAbsolutePath_def readInputsFromFile_def Let_def
      updateInputsInFile_def split: option.splits if_splits sum.splits prod.splits)

text \<open>The state a successful run leaves.\<close>

lemma main_success:
  assumes "fst (main L E w) = None"
  shows "\<exists>req1 status1 body1 issue req2 status2 body2 comments.
           sent (snd (main L E w)) = sent w @ [req1, req2] \<and>
           server E req1 = Response 200 status1 (Some body1) \<and>
           unmarshalIssue L body1 = Some issue \<and>
           server E req2 = Response 200 status2 (Some body2) \<and>
           unmarshalComments L body2 = Some comments \<and>
           commentsFile (snd (main L E w)) = Some (issueLine issue @ loopText 0 comments)"
proof (cases rule: main_cases [of L E w])
  case (Done owner repo num w1 issue w2 w3 comments w4 w5)
  from main_inputs_keeps [OF Done(1)] have k1: "sent w1 = sent w" by simp
  from main_issue_Inr [OF Done(3)] obtain req1 status1 body1 where
    i: "w2 = w1\<lparr>sent := sent w1 @ [req1]\<rparr>" "server E req1 = Response 200 status1 (Some body1)"
      "unmarshalIssue L body1 = Some issue" by blast
  from main_writeIssue_None [OF Done(4)] have w3: "w3 = w2\<lparr>commentsFile := Some (issueLine issue)\<rparr>" .
  from main_comments_Inr [OF Done(5)] obtain req2 status2 body2 where
    c: "w4 = w3\<lparr>sent := sent w3 @ [req2]\<rparr>" "server E req2 = Response 200 status2 (Some body2)"
      "unmarshalComments L body2 = Some comments" by blast
  have "commentsFile w4 = Some (issueLine issue)" using c(1) w3 by simp
  from writeComments_result [OF this Done(6)]
  have w5: "w5 = w4\<lparr>commentsFile := Some (issueLine issue @ loopText 0 comments)\<rparr>" by auto
  have "sent (snd (main L E w)) = sent w @ [req1, req2]"
    using Done(7) w5 c(1) w3 i(1) k1 by simp
  moreover have "commentsFile (snd (main L E w)) = Some (issueLine issue @ loopText 0 comments)"
    using Done(7) w5 by simp
  ultimately show ?thesis using i(2,3) c(2,3) by blast
qed (use assms in auto)

text \<open>What the run does with the answer of the issue endpoint, and of the comments endpoint.\<close>

lemma main_first_request:
  assumes "sent (snd (main L E w)) = sent w @ req # rest"
  shows "(fst (main L E w) = (case issueResponse L (server E req) of Inl e \<Rightarrow> Some e | Inr i \<Rightarrow> None) \<and>
          rest = [] \<and> commentsFile (snd (main L E w)) = commentsFile w) \<or>
         (\<exists>issue. issueResponse L (server E req) = Inr issue)"
proof (cases rule: main_cases [of L E w])
  case (Inputs e w1)
  from main_inputs_keeps [OF Inputs(1)] Inputs(2) assms show ?thesis by simp
next
  case (Token owner repo num w1)
  from main_inputs_keeps [OF Token(1)] Token(3) assms show ?thesis by simp
next
  case (Issue owner repo num w1 e w2)
  from main_inputs_keeps [OF Issue(1)]
  have k: "sent w1 = sent w" "commentsFile w1 = commentsFile w" by simp_all
  from main_issue_Inl [OF Issue(3)] show ?thesis
  proof
    assume "e = FatalCreateRequest \<and> w2 = w1"
    with Issue(4) k assms show ?thesis by simp
  next
    assume "\<exists>r. w2 = w1\<lparr>sent := sent w1 @ [r]\<rparr> \<and> issueResponse L (server E r) = Inl e"
    then obtain r where r: "w2 = w1\<lparr>sent := sent w1 @ [r]\<rparr>" "issueResponse L (server E r) = Inl e"
      by blast
    with Issue(4) k assms have "r = req" "rest = []" by simp_all
    with r Issue(4) k show ?thesis by simp
  qed
next
  case (WriteIssue owner repo num w1 issue w2 e w3)
  from main_inputs_keeps [OF WriteIssue(1)] have k: "sent w1 = sent w" by simp
  from main_issue_Inr [OF WriteIssue(3)] obtain r status body where
    r: "w2 = w1\<lparr>sent := sent w1 @ [r]\<rparr>" "server E r = Response 200 status (Some body)"
      "unmarshalIssue L body = Some issue" by blast
  from main_writeIssue_keeps [OF WriteIssue(4)] r(1) k WriteIssue(5) assms have "r = req" by simp
  with r(2,3) show ?thesis by (auto simp: issueResponse_Inr)
next
  case (Comments owner repo num w1 issue w2 w3 e w4)
  from main_inputs_keeps [OF Comments(1)] have k: "sent w1 = sent w" by simp
  from main_issue_Inr [OF Comments(3)] obtain r status body where
    r: "w2 = w1\<lparr>sent := sent w1 @ [r]\<rparr>" "server E r = Response 200 status (Some body)"
      "unmarshalIssue L body = Some issue" by blast
  from main_comments_Inl [OF Comments(5)] have "\<exists>more. sent w4 = sent w3 @ more" by auto
  with main_writeIssue_keeps [OF Comments(4)] r(1) k Comments(6) assms have "r = req" by auto
  with r(2,3) show ?thesis by (auto simp: issueResponse_Inr)
next
  case (Loop owner repo num w1 issue w2 w3 comments w4 e w5)
  from main_inputs_keeps [OF Loop(1)] have k: "sent w1 = sent w" by simp
  from main_issue_Inr [OF Loop(3)] obtain r status body where
    r: "w2 = w1\<lparr>sent := sent w1 @ [r]\<rparr>" "server E r = Response 200 status (Some body)"
      "unmarshalIssue L body = Some issue" by blast
  from r(2,3) have "issueResponse L (server E r) = Inr issue" by (simp add: issueResponse_Inr)
  moreover
  from main_writeIssue_None [OF Loop(4)] main_comments_keeps [OF Loop(5)]
  have "commentsFile w4 = Some (issueLine issue)" by simp
  from writeComments_result [OF this Loop(6)] have "sent w5 = sent w4" by auto
  moreover from main_comments_Inr [OF Loop(5)] have "\<exists>more. sent w4 = sent w3 @ more" by auto
  ultimately show ?thesis
    using main_writeIssue_keeps [OF Loop(4)] r(1) k Loop(7) assms by auto
next
  case (Done owner repo num w1 issue w2 w3 comments w4 w5)
  from main_success [of L E w] Done(7) assms show ?thesis
    by (auto simp: issueResponse_Inr)
qed

lemma main_second_request:
  assumes "sent (snd (main L E w)) = sent w @ [req1, req2]"
  shows "(fst (main L E w) = (case commentsResponse L (server E req2) of Inl e \<Rightarrow> Some e | Inr c \<Rightarrow> None)) \<or>
         (\<exists>comments. commentsResponse L (server E req2) = Inr comments)"
proof (cases rule: main_cases [of L E w])
  case (Inputs e w1)
  from main_inputs_keeps [OF Inputs(1)] Inputs(2) assms show ?thesis by simp
next
  case (Token owner repo num w1)
  from main_inputs_keeps [OF Token(1)] Token(3) assms show ?thesis by simp
next
  case (Issue owner repo num w1 e w2)
  from main_inputs_keeps [OF Issue(1)] have k: "sent w1 = sent w" by simp
  from main_issue_Inl [OF Issue(3)] Issue(4) k assms show ?thesis by auto
next
  case (WriteIssue owner repo num w1 issue w2 e w3)
  from main_inputs_keeps [OF WriteIssue(1)] have k: "sent w1 = sent w" by simp
  from main_issue_Inr [OF WriteIssue(3)] main_writeIssue_keeps [OF WriteIssue(4)]
    WriteIssue(5) k assms
  show ?thesis by auto
next
  case (Comments owner repo num w1 issue w2 w3 e w4)
  from main_inputs_keeps [OF Comments(1)] have k: "sent w1 = sent w" by simp
  from main_issue_Inr [OF Comments(3)] obtain r where r: "sent w2 = sent w1 @ [r]" by auto
  from main_comments_Inl [OF Comments(5)] show ?thesis
  proof
    assume "e = FatalCreateCommentsRequest \<and> w4 = w3"
    with main_writeIssue_keeps [OF Comments(4)] r k Comments(6) assms show ?thesis by simp
  next
    assume "\<exists>r2. w4 = w3\<lparr>sent := sent w3 @ [r2]\<rparr> \<and> commentsResponse L (server E r2) = Inl e"
    then obtain r2 where r2: "w4 = w3\<lparr>sent := sent w3 @ [r2]\<rparr>"
        "commentsResponse L (server E r2) = Inl e" by blast
    with main_writeIssue_keeps [OF Comments(4)] r k Comments(6) assms have "r2 = req2" by simp
    with r2 Comments(6) show ?thesis by simp
  qed
next
  case (Loop owner repo num w1 issue w2 w3 comments w4 e w5)
  from main_inputs_keeps [OF Loop(1)] have k: "sent w1 = sent w" by simp
  from main_issue_Inr [OF Loop(3)] obtain r where r: "sent w2 = sent w1 @ [r]" by auto
  from main_comments_Inr [OF Loop(5)] obtain r2 status2 body2 where
    c: "w4 = w3\<lparr>sent := sent w3 @ [r2]\<rparr>" "server E r2 = Response 200 status2 (Some body2)"
      "unmarshalComments L body2 = Some comments" by blast
  from main_writeIssue_None [OF Loop(4)] c(1)
  have "commentsFile w4 = Some (issueLine issue)" by simp
  from writeComments_result [OF this Loop(6)] have "sent w5 = sent w4" by auto
  with main_writeIssue_keeps [OF Loop(4)] r k c(1) Loop(7) assms have "r2 = req2" by simp
  with c(2,3) show ?thesis by (auto simp: commentsResponse_Inr)
next
  case (Done owner repo num w1 issue w2 w3 comments w4 w5)
  from main_success [of L E w] Done(7) assms show ?thesis
    by (auto simp: commentsResponse_Inr)
qed

subsection \<open>The path of the first request\<close>

text \<open>The first request of a run is the issue request for the three variables that
  \<open>main_inputs\<close> returns.\<close>

lemma main_first_request_built:
  assumes "main_inputs L E w = (Inr (owner, repo, num), w1)"
    and "sent (snd (main L E w)) = sent w @ req # rest"
  shows "issueRequest L (accessTokenEnv E) owner repo num = Some req"
proof -
  from main_inputs_keeps [OF assms(1)] have k: "sent w1 = sent w" by simp
  have first: "issueRequest L (accessTokenEnv E) owner repo num = Some req"
    if "main_issue L E (accessTokenEnv E) owner repo num w1 = (r, w2)"
      and "sent w2 = sent w @ req # more" for r w2 more
    using that k by (auto simp: main_issue_eq split: option.splits)
  show ?thesis
  proof (cases rule: main_cases [of L E w])
    case (Inputs e w1')
    with assms(1) show ?thesis by simp
  next
    case (Token owner' repo' num' w1')
    with assms k show ?thesis by simp
  next
    case (Issue owner' repo' num' w1' e w2)
    with assms have "sent w2 = sent w @ req # rest" by simp
    with Issue assms(1) first show ?thesis by auto
  next
    case (WriteIssue owner' repo' num' w1' issue w2 e w3)
    from main_writeIssue_keeps [OF WriteIssue(4)] WriteIssue(5) assms(2)
    have "sent w2 = sent w @ req # rest" by simp
    with WriteIssue assms(1) first show ?thesis by auto
  next
    case (Comments owner' repo' num' w1' issue w2 w3 e w4)
    from main_issue_Inr [OF Comments(3)] obtain r where r: "sent w2 = sent w1' @ [r]" by auto
    from main_comments_Inl [OF Comments(5)] have "\<exists>more. sent w4 = sent w3 @ more" by auto
    with main_writeIssue_keeps [OF Comments(4)] r Comments(1,6) assms k
    have "sent w2 = sent w @ req # []" by auto
    with Comments assms(1) first show ?thesis by auto
  next
    case (Loop owner' repo' num' w1' issue w2 w3 comments w4 e w5)
    from main_issue_Inr [OF Loop(3)] obtain r where r: "sent w2 = sent w1' @ [r]" by auto
    from main_comments_Inr [OF Loop(5)] have m: "\<exists>more. sent w4 = sent w3 @ more" by auto
    from main_writeIssue_None [OF Loop(4)] main_comments_keeps [OF Loop(5)]
    have "commentsFile w4 = Some (issueLine issue)" by simp
    from writeComments_result [OF this Loop(6)] have "sent w5 = sent w4" by auto
    with m main_writeIssue_keeps [OF Loop(4)] r Loop(1,7) assms k
    have "sent w2 = sent w @ req # []" by auto
    with Loop assms(1) first show ?thesis by auto
  next
    case (Done owner' repo' num' w1' issue w2 w3 comments w4 w5)
    from main_issue_Inr [OF Done(3)] obtain r where r: "sent w2 = sent w1' @ [r]" by auto
    from main_comments_Inr [OF Done(5)] have m: "\<exists>more. sent w4 = sent w3 @ more" by auto
    from main_writeIssue_None [OF Done(4)] main_comments_keeps [OF Done(5)]
    have "commentsFile w4 = Some (issueLine issue)" by simp
    from writeComments_result [OF this Done(6)] have "sent w5 = sent w4" by auto
    with m main_writeIssue_keeps [OF Done(4)] r Done(1,7) assms k
    have "sent w2 = sent w @ req # []" by auto
    with Done assms(1) first show ?thesis by auto
  qed
qed

text \<open>Without a cache file the first request has empty parameters in its path, whatever
  the flags are; with a cache file it has the merged parameters.\<close>

lemma fresh_cache_first_request_path:
  assumes "inputsFile w = None" and "sent (snd (main L E w)) = sent w @ req # rest"
  shows "Path (ReqURL req) = ''/repos///issues/''"
proof -
  obtain r w1 where m: "main_inputs L E w = (r, w1)" by fastforce
  show ?thesis
  proof (cases r)
    case (Inl e)
    from main_Inputs [OF m [unfolded Inl]] main_inputs_keeps [OF m] assms(2) show ?thesis by simp
  next
    case (Inr cur)
    with main_inputs_fresh [OF assms(1) m [unfolded Inr]]
    have "main_inputs L E w = (Inr ([], [], []), w1)" using m by simp
    from main_first_request_built [OF this assms(2)] show ?thesis
      by (auto dest: issueRequest_Path simp: issuePath_def)
  qed
qed

lemma cached_first_request_path:
  assumes "inputsFile w \<noteq> None" and "readInputsFromFile L E w = Inr cached"
    and "sent (snd (main L E w)) = sent w @ req # rest"
  shows "Path (ReqURL req) =
           issuePath (Owner (overrideInputs E cached)) (Repo (overrideInputs E cached))
             (IssueNumber (overrideInputs E cached))"
proof -
  obtain r w1 where m: "main_inputs L E w = (r, w1)" by fastforce
  from assms(1) obtain data where d: "inputsFile w = Some data" by auto
  show ?thesis
  proof (cases r)
    case (Inl e)
    from main_Inputs [OF m [unfolded Inl]] main_inputs_keeps [OF m] assms(3) show ?thesis by simp
  next
    case (Inr cur)
    from main_inputs_cached [OF d m [unfolded Inr]] assms(2)
    have "main_inputs L E w =
        (Inr (Owner (overrideInputs E cached), Repo (overrideInputs E cached),
              IssueNumber (overrideInputs E cached)), w1)"
      using m Inr by auto
    from main_first_request_built [OF this assms(3)] show ?thesis
      by (auto dest: issueRequest_Path)
  qed
qed

subsection \<open>Members that no field matches\<close>

lemma decodeMembers_filter:
  assumes "\<And>k v y. \<not> P (k, v) \<Longrightarrow> f k v y = Some y"
  shows "decodeMembers f (filter P kvs) x = decodeMembers f kvs x"
proof (induction kvs arbitrary: x)
  case Nil
  show ?case by simp
next
  case (Cons kv kvs)
  obtain k v where kv: "kv = (k, v)" by (cases kv)
  show ?case
  proof (cases "P (k, v)")
    case True
    then show ?thesis by (simp add: kv Cons.IH split: option.splits)
  next
    case False
    with assms [of k v x] show ?thesis by (simp add: kv Cons.IH)
  qed
qed

lemma decodeMembers_map:
  assumes "\<And>k v y. f k (g k v) y = f k v y"
  shows "decodeMembers f (map (\<lambda>(k, v). (k, g k v)) kvs) x = decodeMembers f kvs x"
proof (induction kvs arbitrary: x)
  case Nil
  show ?case by simp
next
  case (Cons kv kvs)
  obtain k v where kv: "kv = (k, v)" by (cases kv)
  show ?case by (simp add: kv assms Cons.IH split: option.splits)
qed

lemma decodeUser_known: "decodeUser L (knownUser L j) u = decodeUser L j u"
proof (cases j)
  case (JObject kvs)
  have "decodeMembers (userMember L) (filter (\<lambda>(k, v). fieldMatch L ''login'' k) kvs) u =
        decodeMembers (userMember L) kvs u"
    by (rule decodeMembers_filter) (simp add: userMember_def)
  then show ?thesis by (simp add: JObject decodeUser_def knownUser_def decodeStruct_def)
qed (simp_all add: knownUser_def)

lemma decodeIssue_known: "decodeIssue L (knownIssue L j) i = decodeIssue L j i"
proof (cases j)
  case (JObject kvs)
  let ?P = "\<lambda>(k, v). fieldMatch L ''title'' k \<or> fieldMatch L ''body'' k \<or>
               fieldMatch L ''user'' k \<or> fieldMatch L ''created_at'' k \<or>
               fieldMatch L ''updated_at'' k"
  let ?g = "\<lambda>k v. if \<not> fieldMatch L ''title'' k \<and> \<not> fieldMatch L ''body'' k \<and>
                       fieldMatch L ''user'' k then knownUser L v else v"
  have "decodeMembers (issueMember L) (map (\<lambda>(k, v). (k, ?g k v)) (filter ?P kvs)) i =
        decodeMembers (issueMember L) (filter ?P kvs) i"
    by (rule decodeMembers_map) (simp add: issueMember_def decodeUser_known)
  also have "\<dots> = decodeMembers (issueMember L) kvs i"
    by (rule decodeMembers_filter) (simp add: issueMember_def)
  finally show ?thesis by (simp add: JObject decodeIssue_def knownIssue_def decodeStruct_def)
qed (simp_all add: knownIssue_def)

lemma decodeComment_known: "decodeComment L (knownComment L j) c = decodeComment L j c"
proof (cases j)
  case (JObject kvs)
  let ?P = "\<lambda>(k, v). fieldMatch L ''body'' k \<or> fieldMatch L ''user'' k \<or>
               fieldMatch L ''created_at'' k"
  let ?g = "\<lambda>k v. if \<not> fieldMatch L ''body'' k \<and> fieldMatch L ''user'' k
                   then knownUser L v else v"
  have "decodeMembers (commentMember L) (map (\<lambda>(k, v). (k, ?g k v)) (filter ?P kvs)) c =
        decodeMembers (commentMember L) (filter ?P kvs) c"
    by (rule decodeMembers_map) (simp add: commentMember_def decodeUser_known)
  also have "\<dots> = decodeMembers (commentMember L) kvs c"
    by (rule decodeMembers_filter) (simp add: commentMember_def)
  finally show ?thesis by (simp add: JObject decodeComment_def knownComment_def decodeStruct_def)
qed (simp_all add: knownComment_def)

lemma decodeElements_known: "decodeElements L (map (knownComment L) js) = decodeElements L js"
  by (induction js) (simp_all add: decodeComment_known split: option.splits)

lemma decodeComments_known: "decodeComments L (knownComments L j) = decodeComments L j"
  by (cases j) (simp_all add: decodeComments_def knownComments_def decodeElements_known)

subsection \<open>Evaluating the concrete run\<close>

lemmas decode_defs =
  unmarshalInputs_def unmarshalIssue_def unmarshalComments_def decodeInputs_def decodeIssue_def
  decodeComments_def decodeComment_def decodeUser_def decodeStruct_def decodeString_def
  decodeTime_def inputsMember_def issueMember_def commentMember_def userMember_def
  zeroInputs_def zeroIssue_def zeroComment_def zeroUser_def zeroTime_def

lemmas run_defs =
  main_def main_inputs_def main_issue_def main_writeIssue_def main_comments_def
  getAbsolutePath_def readInputsFromFile_def updateInputsInFile_def osReadFile_def
  osWriteFile_def osCreate_def fileWriteString_def newRequest_def clientDo_def
  issueRequest_def issueResponse_def commentsRequest_def commentsResponse_def
  apiURL_def apiCommentsURL_def issuePath_def marshalIndent_def Let_def

lemmas example_defs =
  exampleLib_def exampleEnv_def exampleServer_def exampleCache_def noOwnerCache_def
  exampleIssue_def exampleComments_def exampleTime_def cachedWorld_def freshWorld_def
  noOwnerWorld_def allFlagsEnv_def noTokenEnv_def commentsDownServer_def brokenBodyServer_def
  commentsDownEnv_def brokenBodyEnv_def exampleIssueRecord_def exampleCommentRecords_def
  malformedIssueServer_def malformedCommentsServer_def malformedIssueEnv_def
  malformedCommentsEnv_def issueRequestExample_def commentsRequestExample_def

lemmas transcript_defs =
  transcript_def transcriptLines_def unlines_def issueHeaderBlock_def commentBlock_def
  timestamp_def digit_def itoa_small digits_2 digits_4

lemma example_run:
  "main exampleLib exampleEnv cachedWorld =
     (None,
      \<lparr>inputsFile = marshalIndent exampleLib \<lparr>Owner = ''A'', Repo = ''B'', IssueNumber = ''2''\<rparr>,
       commentsFile = Some (issueLine exampleIssueRecord @ loopText 0 exampleCommentRecords),
       sent = [issueRequestExample, commentsRequestExample],
       stdout = [''Issue details and comments have been fetched and saved to comments.txt.'']\<rparr>)"
  by (simp add: run_defs decode_defs example_defs)

lemma example_unmarshal:
  "unmarshalIssue exampleLib ''issue'' = Some exampleIssueRecord"
  "unmarshalComments exampleLib ''comments'' = Some exampleCommentRecords"
  by (simp_all add: decode_defs example_defs)

lemma example_server:
  "server exampleEnv issueRequestExample = Response 200 ''200 OK'' (Some ''issue'')"
  "server exampleEnv commentsRequestExample = Response 200 ''200 OK'' (Some ''comments'')"
  by (simp_all add: example_defs)

lemma example_parseTime: "\<forall>s t. parseTime exampleLib s = Some t \<longrightarrow> fitsLayout t"
  by (simp add: exampleLib_def exampleTime_def fitsLayout_def)

section \<open>The claims\<close>

subsection \<open>The parameters and the cache file\<close>

text \<open>
  Claim C1. With no cache file and the flags \<^verbatim>\<open>-O A -R B -I 3\<close>, the claim expects the
  first GET on \<^verbatim>\<open>/repos/A/B/issues/3\<close>. The branch of \<^verbatim>\<open>main\<close> that creates the cache file
  (lines 99-124) writes the flags to the file and assigns none of \<^verbatim>\<open>currentOwner\<close>,
  \<^verbatim>\<open>currentRepo\<close>, \<^verbatim>\<open>currentIssueNumber\<close>; the only request of that run goes to
  \<^verbatim>\<open>/repos///issues/\<close>.
\<close>

theorem fresh_cache_request_ignores_flags:
  "inputsFile freshWorld = None \<and>
   ownerFlag allFlagsEnv = ''A'' \<and> repoFlag allFlagsEnv = ''B'' \<and>
   issueNumberFlag allFlagsEnv = ''3'' \<and>
   map (\<lambda>req. Path (ReqURL req)) (sent (snd (main exampleLib allFlagsEnv freshWorld))) =
     [''/repos///issues/'']"
  by (simp add: run_defs decode_defs example_defs)

text \<open>
  Claim C3. When the cache file exists and the owner or the repo loaded from it is empty,
  the run ends in a panic and leaves the state as it was (no request is sent, no file is
  written), whatever the flags are. The panic is the one of line 83, or the one of
  \<^verbatim>\<open>getAbsolutePath\<close> when the working directory cannot be found.
\<close>

theorem empty_cached_owner_or_repo_is_fatal:
  assumes "inputsFile w \<noteq> None"
    and "readInputsFromFile L E w = Inr cached"
    and "Owner cached = [] \<or> Repo cached = []"
  shows "(fst (main L E w) = Some PanicGetwd \<or> fst (main L E w) = Some PanicEmptyOwnerRepo) \<and>
         snd (main L E w) = w"
proof -
  have "main_inputs L E w = (Inl PanicGetwd, w) \<or> main_inputs L E w = (Inl PanicEmptyOwnerRepo, w)"
    using assms by (auto simp: main_inputs_def getAbsolutePath_def split: option.splits)
  then show ?thesis by (auto dest: main_Inputs)
qed

theorem empty_cached_owner_or_repo_is_fatal_witness:
  "inputsFile noOwnerWorld \<noteq> None \<and>
   readInputsFromFile exampleLib allFlagsEnv noOwnerWorld =
     Inr \<lparr>Owner = [], Repo = ''B'', IssueNumber = ''1''\<rparr> \<and>
   ownerFlag allFlagsEnv = ''A'' \<and>
   fst (main exampleLib allFlagsEnv noOwnerWorld) = Some PanicEmptyOwnerRepo \<and>
   snd (main exampleLib allFlagsEnv noOwnerWorld) = noOwnerWorld"
proof -
  have h1: "inputsFile noOwnerWorld \<noteq> None" by (simp add: noOwnerWorld_def)
  have h2: "readInputsFromFile exampleLib allFlagsEnv noOwnerWorld =
     Inr \<lparr>Owner = [], Repo = ''B'', IssueNumber = ''1''\<rparr>"
    by (simp add: run_defs decode_defs example_defs)
  have h3: "Owner \<lparr>Owner = [], Repo = ''B'', IssueNumber = ''1''\<rparr> = [] \<or>
            Repo \<lparr>Owner = [], Repo = ''B'', IssueNumber = ''1''\<rparr> = []" by simp
  have g: "getwd allFlagsEnv \<noteq> None" by (simp add: example_defs)
  have "fst (main exampleLib allFlagsEnv noOwnerWorld) \<noteq> Some PanicGetwd"
    by (simp add: run_defs decode_defs example_defs)
  with empty_cached_owner_or_repo_is_fatal [OF h1 h2 h3] h1 h2 show ?thesis
    by (simp add: allFlagsEnv_def)
qed

text \<open>
  Claim C4. When the cache file exists, holds a non-empty owner and repo, and can be
  written, the cache file after the run holds the cached parameters with every non-empty
  flag in place of the cached field, whatever happens later in the run. In particular
  the cache \<open>{A, B, 1}\<close> and the single flag \<^verbatim>\<open>-I 2\<close> give \<open>{A, B, 2}\<close>.
\<close>

theorem flags_override_cached_inputs:
  assumes "inputsFile w \<noteq> None"
    and "readInputsFromFile L E w = Inr cached"
    and "Owner cached \<noteq> []" and "Repo cached \<noteq> []"
    and "getwd E = Some dir" and "writeFile E = WriteFileOk"
  shows "inputsFile (snd (main L E w)) = marshalIndent L (overrideInputs E cached) \<and>
         (cached = \<lparr>Owner = A, Repo = B, IssueNumber = ''1''\<rparr> \<and>
          ownerFlag E = [] \<and> repoFlag E = [] \<and> issueNumberFlag E = ''2'' \<longrightarrow>
            inputsFile (snd (main L E w)) =
              marshalIndent L \<lparr>Owner = A, Repo = B, IssueNumber = ''2''\<rparr>)"
proof -
  have "\<exists>cur. main_inputs L E w =
      (Inr cur, w\<lparr>inputsFile := marshalIndent L (overrideInputs E cached)\<rparr>)"
    using assms
    by (auto simp: main_inputs_def getAbsolutePath_def Let_def updateInputsInFile_def
        marshalIndent_def osWriteFile_def overrideInputs_def)
  then obtain cur where "main_inputs L E w =
      (Inr cur, w\<lparr>inputsFile := marshalIndent L (overrideInputs E cached)\<rparr>)" ..
  from main_after_inputs [OF this]
  have "inputsFile (snd (main L E w)) = marshalIndent L (overrideInputs E cached)" by simp
  then show ?thesis by (auto simp: overrideInputs_def)
qed

theorem flags_override_cached_inputs_witness:
  "inputsFile cachedWorld \<noteq> None \<and>
   readInputsFromFile exampleLib exampleEnv cachedWorld =
     Inr \<lparr>Owner = ''A'', Repo = ''B'', IssueNumber = ''1''\<rparr> \<and>
   getwd exampleEnv = Some ''/work'' \<and> writeFile exampleEnv = WriteFileOk \<and>
   ownerFlag exampleEnv = [] \<and> repoFlag exampleEnv = [] \<and> issueNumberFlag exampleEnv = ''2'' \<and>
   inputsFile (snd (main exampleLib exampleEnv cachedWorld)) =
     marshalIndent exampleLib \<lparr>Owner = ''A'', Repo = ''B'', IssueNumber = ''2''\<rparr>"
proof -
  have h1: "inputsFile cachedWorld \<noteq> None" by (simp add: cachedWorld_def)
  have h2: "readInputsFromFile exampleLib exampleEnv cachedWorld =
     Inr \<lparr>Owner = ''A'', Repo = ''B'', IssueNumber = ''1''\<rparr>"
    by (simp add: run_defs decode_defs example_defs)
  have h3: "Owner \<lparr>Owner = ''A'', Repo = ''B'', IssueNumber = ''1''\<rparr> \<noteq> []" by simp
  have h4: "Repo \<lparr>Owner = ''A'', Repo = ''B'', IssueNumber = ''1''\<rparr> \<noteq> []" by simp
  have h5: "getwd exampleEnv = Some ''/work''" by (simp add: exampleEnv_def)
  have h6: "writeFile exampleEnv = WriteFileOk" by (simp add: exampleEnv_def)
  have f: "ownerFlag exampleEnv = [] \<and> repoFlag exampleEnv = [] \<and> issueNumberFlag exampleEnv = ''2''"
    by (simp add: exampleEnv_def)
  from flags_override_cached_inputs [OF h1 h2 h3 h4 h5 h6, of "''A''" "''B''"] f
  have "inputsFile (snd (main exampleLib exampleEnv cachedWorld)) =
     marshalIndent exampleLib \<lparr>Owner = ''A'', Repo = ''B'', IssueNumber = ''2''\<rparr>"
    by blast
  with h1 h2 h5 h6 f show ?thesis by blast
qed

text \<open>
  Claim C5. When there is no cache file and it can be written, the cache file after the
  run is the pretty-printed object with the keys \<^verbatim>\<open>owner\<close>, \<^verbatim>\<open>repo\<close>, \<^verbatim>\<open>issueNumber\<close> and
  the three flags as values, whatever the flags are: the run never ends in the panic for
  an empty owner or repo.
\<close>

theorem fresh_cache_file_holds_the_flags:
  assumes "inputsFile w = None" and "getwd E = Some dir" and "writeFile E = WriteFileOk"
  shows "inputsFile (snd (main L E w)) = Some (
           [CHR ''{'', CHR 0x0A] @
           ''  '' @ [CHR 0x22] @ ''owner'' @ [CHR 0x22] @ '': '' @ quoteString L (ownerFlag E) @ [CHR '','', CHR 0x0A] @
           ''  '' @ [CHR 0x22] @ ''repo'' @ [CHR 0x22] @ '': '' @ quoteString L (repoFlag E) @ [CHR '','', CHR 0x0A] @
           ''  '' @ [CHR 0x22] @ ''issueNumber'' @ [CHR 0x22] @ '': '' @ quoteString L (issueNumberFlag E) @ [CHR 0x0A] @
           [CHR ''}'']) \<and>
         fst (main L E w) \<noteq> Some PanicEmptyOwnerRepo"
proof -
  have mi: "main_inputs L E w = (Inr ([], [], []), w\<lparr>inputsFile := marshalIndent L (flagInputs E)\<rparr>)"
    using assms
    by (simp add: main_inputs_def getAbsolutePath_def Let_def marshalIndent_def osWriteFile_def
        flagInputs_def)
  have "fst (main L E w) \<noteq> Some PanicEmptyOwnerRepo"
  proof (cases rule: main_cases [of L E w])
    case (Issue owner repo num w1 e w2)
    then show ?thesis
      by (auto simp: main_issue_eq issueResponse_def
          split: option.splits http_result.splits if_splits)
  next
    case (WriteIssue owner repo num w1 issue w2 e w3)
    then show ?thesis by (auto dest!: main_writeIssue_result)
  next
    case (Comments owner repo num w1 issue w2 w3 e w4)
    then show ?thesis
      by (auto simp: main_comments_eq commentsResponse_def
          split: option.splits http_result.splits if_splits)
  next
    case (Loop owner repo num w1 issue w2 w3 comments w4 e w5)
    from Loop(4,5) have "commentsFile w4 = Some (issueLine issue)"
      by (auto dest!: main_writeIssue_None main_comments_keeps)
    from writeComments_result [OF this Loop(6)] Loop(7) show ?thesis by auto
  qed (use mi in auto)
  moreover from main_after_inputs [OF mi]
  have "inputsFile (snd (main L E w)) = marshalIndent L (flagInputs E)" by simp
  ultimately show ?thesis by (simp add: marshalIndent_def flagInputs_def)
qed

theorem fresh_cache_file_holds_the_flags_witness:
  "inputsFile freshWorld = None \<and> getwd allFlagsEnv = Some ''/work'' \<and>
   writeFile allFlagsEnv = WriteFileOk \<and>
   inputsFile (snd (main exampleLib allFlagsEnv freshWorld)) = Some (
     [CHR ''{'', CHR 0x0A] @
     ''  '' @ [CHR 0x22] @ ''owner'' @ [CHR 0x22] @ '': '' @ [CHR 0x22] @ ''A'' @ [CHR 0x22, CHR '','', CHR 0x0A] @
     ''  '' @ [CHR 0x22] @ ''repo'' @ [CHR 0x22] @ '': '' @ [CHR 0x22] @ ''B'' @ [CHR 0x22, CHR '','', CHR 0x0A] @
     ''  '' @ [CHR 0x22] @ ''issueNumber'' @ [CHR 0x22] @ '': '' @ [CHR 0x22] @ ''3'' @ [CHR 0x22, CHR 0x0A] @
     [CHR ''}''])"
proof -
  have h1: "inputsFile freshWorld = None" by (simp add: freshWorld_def)
  have h2: "getwd allFlagsEnv = Some ''/work''" by (simp add: allFlagsEnv_def exampleEnv_def)
  have h3: "writeFile allFlagsEnv = WriteFileOk" by (simp add: allFlagsEnv_def exampleEnv_def)
  from fresh_cache_file_holds_the_flags [OF h1 h2 h3, of exampleLib] h1 h2 h3 show ?thesis
    by (simp add: allFlagsEnv_def exampleEnv_def exampleLib_def)
qed

text \<open>
  Claim C10. A run that reaches the token check has already written the merged parameter
  set to the cache file, and nothing later in the run touches that file. A run that ends
  for the missing token leaves the cache file created or updated.
\<close>

theorem cache_file_written_before_token_check:
  shows "(\<forall>cur w1. main_inputs L E w = (Inr cur, w1) \<longrightarrow>
            inputsFile w1 = expectedCache L E w \<and> inputsFile w1 \<noteq> None \<and>
            inputsFile (snd (main L E w)) = inputsFile w1) \<and>
         (fst (main L E w) = Some PanicNoToken \<longrightarrow>
            inputsFile (snd (main L E w)) = expectedCache L E w \<and>
            inputsFile (snd (main L E w)) \<noteq> None)"
proof -
  have a: "inputsFile w1 = expectedCache L E w \<and> inputsFile w1 \<noteq> None"
    if "main_inputs L E w = (Inr cur, w1)" for cur w1
  proof (cases "inputsFile w")
    case None
    from main_inputs_fresh [OF None that] show ?thesis
      by (simp add: expectedCache_def None marshalIndent_def)
  next
    case (Some data)
    from main_inputs_cached [OF Some that] show ?thesis
      by (auto simp: expectedCache_def Some marshalIndent_def readInputsFromFile_def
          osReadFile_def split: option.splits if_splits)
  qed
  have b: "\<exists>cur w1. main_inputs L E w = (Inr cur, w1) \<and> snd (main L E w) = w1"
    if "fst (main L E w) = Some PanicNoToken"
  proof (cases rule: main_cases [of L E w])
    case (Inputs e w1)
    with that show ?thesis
      by (auto simp: main_inputs_def getAbsolutePath_def readInputsFromFile_def Let_def
          updateInputsInFile_def marshalIndent_def
          split: option.splits if_splits sum.splits prod.splits)
  next
    case (Token owner repo num w1)
    then show ?thesis by simp
  next
    case (Issue owner repo num w1 e w2)
    with that show ?thesis
      by (auto simp: main_issue_eq issueResponse_def
          split: option.splits http_result.splits if_splits)
  next
    case (WriteIssue owner repo num w1 issue w2 e w3)
    with that show ?thesis by (auto dest!: main_writeIssue_result)
  next
    case (Comments owner repo num w1 issue w2 w3 e w4)
    with that show ?thesis
      by (auto simp: main_comments_eq commentsResponse_def
          split: option.splits http_result.splits if_splits)
  next
    case (Loop owner repo num w1 issue w2 w3 comments w4 e w5)
    from Loop(4,5) have "commentsFile w4 = Some (issueLine issue)"
      by (auto dest!: main_writeIssue_None main_comments_keeps)
    from writeComments_result [OF this Loop(6)] Loop(7) that show ?thesis by auto
  next
    case (Done owner repo num w1 issue w2 w3 comments w4 w5)
    with that show ?thesis by simp
  qed
  show ?thesis using a b main_after_inputs by (metis)
qed

theorem cache_file_written_before_token_check_witness:
  "main_inputs exampleLib noTokenEnv cachedWorld =
     (Inr (''A'', ''B'', ''2''),
      cachedWorld\<lparr>inputsFile :=
        marshalIndent exampleLib \<lparr>Owner = ''A'', Repo = ''B'', IssueNumber = ''2''\<rparr>\<rparr>) \<and>
   fst (main exampleLib noTokenEnv cachedWorld) = Some PanicNoToken \<and>
   expectedCache exampleLib noTokenEnv cachedWorld =
     marshalIndent exampleLib \<lparr>Owner = ''A'', Repo = ''B'', IssueNumber = ''2''\<rparr> \<and>
   inputsFile (snd (main exampleLib noTokenEnv cachedWorld)) =
     marshalIndent exampleLib \<lparr>Owner = ''A'', Repo = ''B'', IssueNumber = ''2''\<rparr>"
proof -
  have h1: "main_inputs exampleLib noTokenEnv cachedWorld =
     (Inr (''A'', ''B'', ''2''),
      cachedWorld\<lparr>inputsFile :=
        marshalIndent exampleLib \<lparr>Owner = ''A'', Repo = ''B'', IssueNumber = ''2''\<rparr>\<rparr>)"
    by (simp add: run_defs decode_defs example_defs)
  have h2: "fst (main exampleLib noTokenEnv cachedWorld) = Some PanicNoToken"
    by (simp add: main_def h1) (simp add: noTokenEnv_def)
  have h3: "expectedCache exampleLib noTokenEnv cachedWorld =
     marshalIndent exampleLib \<lparr>Owner = ''A'', Repo = ''B'', IssueNumber = ''2''\<rparr>"
    by (simp add: expectedCache_def overrideInputs_def decode_defs example_defs)
  from cache_file_written_before_token_check [of exampleLib noTokenEnv cachedWorld] h1 h2 h3
  show ?thesis by simp
qed

subsection \<open>The token\<close>

text \<open>
  Claim C6. With an empty \<^verbatim>\<open>GITHUB_ACCESS_TOKEN\<close> the run ends in a panic or a fatal log and
  sends no request.
\<close>

theorem no_token_no_request:
  assumes "accessTokenEnv E = []"
  shows "(\<exists>e. fst (main L E w) = Some e) \<and> sent (snd (main L E w)) = sent w"
  by (cases rule: main_cases [of L E w]) (use assms in \<open>auto dest: main_inputs_keeps\<close>)

theorem no_token_no_request_witness:
  "accessTokenEnv noTokenEnv = [] \<and>
   (\<exists>e. fst (main exampleLib noTokenEnv cachedWorld) = Some e) \<and>
   sent (snd (main exampleLib noTokenEnv cachedWorld)) = []"
proof -
  have h: "accessTokenEnv noTokenEnv = []" by (simp add: noTokenEnv_def)
  from h no_token_no_request [OF h, of exampleLib cachedWorld] show ?thesis
    by (simp add: cachedWorld_def)
qed

subsection \<open>The output file\<close>

text \<open>
  Claim C8. After a successful run the output file holds exactly the transcript of the
  specification, whatever it held before: the header block of the decoded issue, one
  blank line, and the blocks of the decoded comments in the order of the response,
  numbered from 1 and separated by one blank line. The timestamps have the form
  \<^verbatim>\<open>YYYY-MM-DD HH:MM:SS\<close> when the times that the library parses have a year of at most
  four digits and the other fields of at most two, as RFC 3339 timestamps have.
\<close>

theorem transcript_of_a_successful_run:
  assumes "fst (main L E w) = None"
    and "\<forall>s t. parseTime L s = Some t \<longrightarrow> fitsLayout t"
  shows "\<exists>req1 status1 body1 issue req2 status2 body2 comments.
           sent (snd (main L E w)) = sent w @ [req1, req2] \<and>
           server E req1 = Response 200 status1 (Some body1) \<and>
           unmarshalIssue L body1 = Some issue \<and>
           server E req2 = Response 200 status2 (Some body2) \<and>
           unmarshalComments L body2 = Some comments \<and>
           commentsFile (snd (main L E w)) = Some (transcript issue comments)"
proof -
  from main_success [OF assms(1)] obtain req1 status1 body1 issue req2 status2 body2 comments
    where r: "sent (snd (main L E w)) = sent w @ [req1, req2]"
      "server E req1 = Response 200 status1 (Some body1)"
      "unmarshalIssue L body1 = Some issue"
      "server E req2 = Response 200 status2 (Some body2)"
      "unmarshalComments L body2 = Some comments"
      "commentsFile (snd (main L E w)) = Some (issueLine issue @ loopText 0 comments)"
    by blast
  from unmarshalIssue_fits [OF assms(2) r(3)] unmarshalComments_fits [OF assms(2) r(5)]
  have "issueLine issue @ loopText 0 comments = transcript issue comments"
    by (intro transcript_eq) auto
  with r show ?thesis by metis
qed

theorem transcript_of_a_successful_run_witness:
  "fst (main exampleLib exampleEnv cachedWorld) = None \<and>
   commentsFile cachedWorld = Some ''old'' \<and>
   commentsFile (snd (main exampleLib exampleEnv cachedWorld)) =
     Some (transcript exampleIssueRecord exampleCommentRecords) \<and>
   transcript exampleIssueRecord exampleCommentRecords =
     ''Issue Title: T\<newline>Issue Body: B\<newline>Issue Author: u\<newline>Created At: 2023-07-09 08:05:30\<newline>Updated At: 2023-07-09 08:05:30\<newline>\<newline>Comment 1 by v at 2023-07-09 08:05:30:\<newline>first\<newline>\<newline>Comment 2 by u at 0001-01-01 00:00:00:\<newline>second\<newline>''"
proof -
  have h: "fst (main exampleLib exampleEnv cachedWorld) = None"
    by (simp add: example_run)
  from transcript_of_a_successful_run [OF h example_parseTime]
  obtain req1 status1 body1 issue req2 status2 body2 comments where
    r: "sent (snd (main exampleLib exampleEnv cachedWorld)) = sent cachedWorld @ [req1, req2]"
      "server exampleEnv req1 = Response 200 status1 (Some body1)"
      "unmarshalIssue exampleLib body1 = Some issue"
      "server exampleEnv req2 = Response 200 status2 (Some body2)"
      "unmarshalComments exampleLib body2 = Some comments"
      "commentsFile (snd (main exampleLib exampleEnv cachedWorld)) = Some (transcript issue comments)"
    by blast
  have "sent cachedWorld = []" by (simp add: cachedWorld_def)
  with r(1) have "req1 = issueRequestExample" "req2 = commentsRequestExample"
    by (simp_all add: example_run)
  with r(2,4) have "body1 = ''issue''" "body2 = ''comments''"
    by (simp_all add: example_server)
  with r(3,5) have "issue = exampleIssueRecord" "comments = exampleCommentRecords"
    by (simp_all add: example_unmarshal)
  with r(6) have "commentsFile (snd (main exampleLib exampleEnv cachedWorld)) =
     Some (transcript exampleIssueRecord exampleCommentRecords)" by simp
  moreover have "transcript exampleIssueRecord exampleCommentRecords =
     ''Issue Title: T\<newline>Issue Body: B\<newline>Issue Author: u\<newline>Created At: 2023-07-09 08:05:30\<newline>Updated At: 2023-07-09 08:05:30\<newline>\<newline>Comment 1 by v at 2023-07-09 08:05:30:\<newline>first\<newline>\<newline>Comment 2 by u at 0001-01-01 00:00:00:\<newline>second\<newline>''"
    by (simp add: transcript_defs example_defs zeroTime_def)
  moreover have "commentsFile cachedWorld = Some ''old''" by (simp add: cachedWorld_def)
  ultimately show ?thesis using h by blast
qed

text \<open>
  Claim C2, amended. A fatal failure before the output file is created (parameters,
  cache file, token, the issue request, its status, its decoding, the creation of the
  file) leaves the output file as it was. A later failure leaves a part of the
  transcript: a prefix of the issue header block when writing it fails, exactly the
  issue header block when the comments request, its status or its decoding fails, and
  the header block followed by a prefix of the comment blocks when a write of the loop
  fails.
\<close>

theorem partial_output_on_late_failure:
  assumes "fst (main L E w) = Some e"
  shows "(beforeOutput e \<and> commentsFile (snd (main L E w)) = commentsFile w) \<or>
         (\<exists>req rest status body issue.
            sent (snd (main L E w)) = sent w @ req # rest \<and>
            server E req = Response 200 status (Some body) \<and>
            unmarshalIssue L body = Some issue \<and>
            ((e = FatalWriteIssue \<and>
                (\<exists>p. commentsFile (snd (main L E w)) = Some p \<and> prefix p (issueLine issue))) \<or>
             (commentsFetchFailure e \<and>
                commentsFile (snd (main L E w)) = Some (issueLine issue)) \<or>
             (commentsWriteFailure e \<and>
                (\<exists>req2 status2 body2 comments p.
                   rest = [req2] \<and> server E req2 = Response 200 status2 (Some body2) \<and>
                   unmarshalComments L body2 = Some comments \<and>
                   commentsFile (snd (main L E w)) = Some (issueLine issue @ p) \<and>
                   prefix p (loopText 0 comments)))))"
proof (cases rule: main_cases [of L E w])
  case (Inputs e' w1)
  with assms have e: "e' = e" by simp
  from main_inputs_Inl [OF Inputs(1)] have "beforeOutput e" unfolding e by auto
  moreover from main_inputs_keeps [OF Inputs(1)] Inputs(2)
  have "commentsFile (snd (main L E w)) = commentsFile w" by simp
  ultimately show ?thesis by blast
next
  case (Token owner repo num w1)
  with assms have "beforeOutput e" by auto
  moreover from main_inputs_keeps [OF Token(1)] Token(3)
  have "commentsFile (snd (main L E w)) = commentsFile w" by simp
  ultimately show ?thesis by blast
next
  case (Issue owner repo num w1 e' w2)
  with assms have e: "e' = e" by simp
  from main_issue_Inl [OF Issue(3)] have "beforeOutput e"
    unfolding e by (auto dest: issueResponse_Inl)
  moreover from main_inputs_keeps [OF Issue(1)] main_issue_keeps [OF Issue(3)] Issue(4)
  have "commentsFile (snd (main L E w)) = commentsFile w" by simp
  ultimately show ?thesis by blast
next
  case (WriteIssue owner repo num w1 issue w2 e' w3)
  with assms have e: "e' = e" by simp
  from main_inputs_keeps [OF WriteIssue(1)] have k1: "sent w1 = sent w" "commentsFile w1 = commentsFile w"
    by simp_all
  from main_issue_Inr [OF WriteIssue(3)] obtain req status body where
    i: "w2 = w1\<lparr>sent := sent w1 @ [req]\<rparr>" "server E req = Response 200 status (Some body)"
      "unmarshalIssue L body = Some issue" by blast
  from main_writeIssue_result [OF WriteIssue(4)] consider
    (creating) "e = FatalCreateFile" "w3 = w2"
    | (writing) p where "w3 = w2\<lparr>commentsFile := Some p\<rparr>" "prefix p (issueLine issue)"
        "e = FatalWriteIssue"
    unfolding e by auto
  then show ?thesis
  proof cases
    case creating
    with WriteIssue(5) i(1) k1 have "commentsFile (snd (main L E w)) = commentsFile w" by simp
    with creating(1) show ?thesis by simp
  next
    case writing
    have "sent (snd (main L E w)) = sent w @ req # []"
      using WriteIssue(5) writing(1) i(1) k1 by simp
    moreover have "commentsFile (snd (main L E w)) = Some p"
      using WriteIssue(5) writing(1) by simp
    ultimately show ?thesis using i(2,3) writing(2,3) by blast
  qed
next
  case (Comments owner repo num w1 issue w2 w3 e' w4)
  with assms have e: "e' = e" by simp
  from main_inputs_keeps [OF Comments(1)] have k1: "sent w1 = sent w" by simp
  from main_issue_Inr [OF Comments(3)] obtain req status body where
    i: "w2 = w1\<lparr>sent := sent w1 @ [req]\<rparr>" "server E req = Response 200 status (Some body)"
      "unmarshalIssue L body = Some issue" by blast
  from main_writeIssue_None [OF Comments(4)]
  have w3: "w3 = w2\<lparr>commentsFile := Some (issueLine issue)\<rparr>" .
  from main_comments_Inl [OF Comments(5)]
  have f: "commentsFetchFailure e" unfolding e by (auto dest: commentsResponse_Inl)
  from main_comments_Inl [OF Comments(5)]
  have "\<exists>rest. sent w4 = sent w3 @ rest" by auto
  then obtain rest where "sent w4 = sent w3 @ rest" ..
  then have "sent (snd (main L E w)) = sent w @ req # rest"
    using Comments(6) w3 i(1) k1 by simp
  moreover from main_comments_keeps [OF Comments(5)] w3 Comments(6)
  have "commentsFile (snd (main L E w)) = Some (issueLine issue)" by simp
  ultimately show ?thesis using i(2,3) f by blast
next
  case (Loop owner repo num w1 issue w2 w3 comments w4 e' w5)
  with assms have e: "e' = e" by simp
  from main_inputs_keeps [OF Loop(1)] have k1: "sent w1 = sent w" by simp
  from main_issue_Inr [OF Loop(3)] obtain req status body where
    i: "w2 = w1\<lparr>sent := sent w1 @ [req]\<rparr>" "server E req = Response 200 status (Some body)"
      "unmarshalIssue L body = Some issue" by blast
  from main_writeIssue_None [OF Loop(4)]
  have w3: "w3 = w2\<lparr>commentsFile := Some (issueLine issue)\<rparr>" .
  from main_comments_Inr [OF Loop(5)] obtain req2 status2 body2 where
    c: "w4 = w3\<lparr>sent := sent w3 @ [req2]\<rparr>" "server E req2 = Response 200 status2 (Some body2)"
      "unmarshalComments L body2 = Some comments" by blast
  have "commentsFile w4 = Some (issueLine issue)" using c(1) w3 by simp
  from writeComments_result [OF this Loop(6)] obtain p where
    p: "w5 = w4\<lparr>commentsFile := Some (issueLine issue @ p)\<rparr>" "prefix p (loopText 0 comments)"
      "commentsWriteFailure e" unfolding e by auto
  have "sent (snd (main L E w)) = sent w @ req # [req2]"
    using Loop(7) p(1) c(1) w3 i(1) k1 by simp
  moreover have "commentsFile (snd (main L E w)) = Some (issueLine issue @ p)"
    using Loop(7) p(1) by simp
  ultimately show ?thesis using i(2,3) c(2,3) p(2,3) by blast
next
  case (Done owner repo num w1 issue w2 w3 comments w4 w5)
  with assms show ?thesis by simp
qed

theorem partial_output_on_late_failure_witness:
  "fst (main exampleLib commentsDownEnv cachedWorld) =
     Some (FatalCommentsStatus ''500 Internal Server Error'') \<and>
   (\<exists>req rest status body issue.
      sent (snd (main exampleLib commentsDownEnv cachedWorld)) = sent cachedWorld @ req # rest \<and>
      server commentsDownEnv req = Response 200 status (Some body) \<and>
      unmarshalIssue exampleLib body = Some issue \<and>
      commentsFile (snd (main exampleLib commentsDownEnv cachedWorld)) = Some (issueLine issue))"
proof -
  have h: "fst (main exampleLib commentsDownEnv cachedWorld) =
     Some (FatalCommentsStatus ''500 Internal Server Error'')"
    by (simp add: run_defs decode_defs example_defs)
  from partial_output_on_late_failure [OF h] h show ?thesis by auto
qed

theorem issue_only_output_counterexample:
  "fst (main exampleLib commentsDownEnv cachedWorld) =
     Some (FatalCommentsStatus ''500 Internal Server Error'') \<and>
   commentsFile (snd (main exampleLib commentsDownEnv cachedWorld)) =
     Some (issueLine exampleIssueRecord) \<and>
   fst (main exampleLib exampleEnv cachedWorld) = None \<and>
   commentsFile (snd (main exampleLib exampleEnv cachedWorld)) =
     Some (transcript exampleIssueRecord exampleCommentRecords) \<and>
   strict_prefix (issueLine exampleIssueRecord)
     (transcript exampleIssueRecord exampleCommentRecords)"
proof -
  have a: "main exampleLib commentsDownEnv cachedWorld =
     (Some (FatalCommentsStatus ''500 Internal Server Error''),
      \<lparr>inputsFile = marshalIndent exampleLib \<lparr>Owner = ''A'', Repo = ''B'', IssueNumber = ''2''\<rparr>,
       commentsFile = Some (issueLine exampleIssueRecord),
       sent = [\<lparr>Method = ''GET'',
                ReqURL = \<lparr>Scheme = ''https'', Host = ''api.github.com'', Path = ''/repos/A/B/issues/2''\<rparr>,
                Authorization = Some ''Bearer secret''\<rparr>,
               \<lparr>Method = ''GET'',
                ReqURL = \<lparr>Scheme = ''https'', Host = ''api.github.com'',
                          Path = ''/repos/A/B/issues/2/comments''\<rparr>,
                Authorization = Some ''Bearer secret''\<rparr>],
       stdout = []\<rparr>)"
    by (simp add: run_defs decode_defs example_defs)
  have b: "main exampleLib exampleEnv cachedWorld =
     (None,
      \<lparr>inputsFile = marshalIndent exampleLib \<lparr>Owner = ''A'', Repo = ''B'', IssueNumber = ''2''\<rparr>,
       commentsFile = Some (issueLine exampleIssueRecord @ loopText 0 exampleCommentRecords),
       sent = [\<lparr>Method = ''GET'',
                ReqURL = \<lparr>Scheme = ''https'', Host = ''api.github.com'', Path = ''/repos/A/B/issues/2''\<rparr>,
                Authorization = Some ''Bearer secret''\<rparr>,
               \<lparr>Method = ''GET'',
                ReqURL = \<lparr>Scheme = ''https'', Host = ''api.github.com'',
                          Path = ''/repos/A/B/issues/2/comments''\<rparr>,
                Authorization = Some ''Bearer secret''\<rparr>],
       stdout = [''Issue details and comments have been fetched and saved to comments.txt.'']\<rparr>)"
    by (simp add: run_defs decode_defs example_defs)
  have fits: "fitsLayout exampleTime" "fitsLayout zeroTime"
    by (simp_all add: fitsLayout_def exampleTime_def zeroTime_def)
  have t: "issueLine exampleIssueRecord @ loopText 0 exampleCommentRecords =
      transcript exampleIssueRecord exampleCommentRecords"
    by (rule transcript_eq) (simp_all add: exampleIssueRecord_def exampleCommentRecords_def fits)
  have "strict_prefix (issueLine exampleIssueRecord)
     (issueLine exampleIssueRecord @ loopText 0 exampleCommentRecords)"
    by (simp add: exampleCommentRecords_def strict_prefix_def)
  with a b t show ?thesis by simp
qed

subsection \<open>The two responses\<close>

text \<open>
  Claim C7, amended. For both requests success is exactly status 200: any other status
  ends the run, with the status text when the body of the response could be read and
  with the failure of the read otherwise, since the body is read before the status is
  looked at. When the issue endpoint answers with another status, no second request is
  sent and the output file is as it was before the run. A run that succeeds got the
  status 200 twice.
\<close>

theorem non_200_status_is_fatal:
  "(\<forall>req rest code status readAll.
      sent (snd (main L E w)) = sent w @ req # rest \<and>
      server E req = Response code status readAll \<and> code \<noteq> 200 \<longrightarrow>
        fst (main L E w) =
          Some (case readAll of None \<Rightarrow> FatalReadBody | Some body \<Rightarrow> FatalStatus status) \<and>
        commentsFile (snd (main L E w)) = commentsFile w \<and> rest = []) \<and>
   (\<forall>req1 req2 code status readAll.
      sent (snd (main L E w)) = sent w @ [req1, req2] \<and>
      server E req2 = Response code status readAll \<and> code \<noteq> 200 \<longrightarrow>
        fst (main L E w) =
          Some (case readAll of None \<Rightarrow> FatalReadCommentsBody
                | Some body \<Rightarrow> FatalCommentsStatus status)) \<and>
   (fst (main L E w) = None \<longrightarrow>
      (\<exists>req1 status1 body1 req2 status2 body2.
         sent (snd (main L E w)) = sent w @ [req1, req2] \<and>
         server E req1 = Response 200 status1 (Some body1) \<and>
         server E req2 = Response 200 status2 (Some body2)))"
proof -
  have p1: "fst (main L E w) =
          Some (case readAll of None \<Rightarrow> FatalReadBody | Some body \<Rightarrow> FatalStatus status) \<and>
        commentsFile (snd (main L E w)) = commentsFile w \<and> rest = []"
    if a: "sent (snd (main L E w)) = sent w @ req # rest \<and>
      server E req = Response code status readAll \<and> code \<noteq> 200"
    for req rest code status readAll
  proof -
    from a have r: "issueResponse L (server E req) =
      Inl (case readAll of None \<Rightarrow> FatalReadBody | Some body \<Rightarrow> FatalStatus status)"
      by (auto simp: issueResponse_def split: option.splits)
    from a main_first_request [of L E w req rest] r show ?thesis by auto
  qed
  have p2: "fst (main L E w) =
          Some (case readAll of None \<Rightarrow> FatalReadCommentsBody
                | Some body \<Rightarrow> FatalCommentsStatus status)"
    if a: "sent (snd (main L E w)) = sent w @ [req1, req2] \<and>
      server E req2 = Response code status readAll \<and> code \<noteq> 200"
    for req1 req2 code status readAll
  proof -
    from a have r: "commentsResponse L (server E req2) =
      Inl (case readAll of None \<Rightarrow> FatalReadCommentsBody | Some body \<Rightarrow> FatalCommentsStatus status)"
      by (auto simp: commentsResponse_def split: option.splits)
    from a main_second_request [of L E w req1 req2] r show ?thesis by auto
  qed
  have p3: "\<exists>req1 status1 body1 req2 status2 body2.
         sent (snd (main L E w)) = sent w @ [req1, req2] \<and>
         server E req1 = Response 200 status1 (Some body1) \<and>
         server E req2 = Response 200 status2 (Some body2)"
    if "fst (main L E w) = None"
    using main_success [OF that] by blast
  from p1 p2 p3 show ?thesis by blast
qed


theorem non_200_status_is_fatal_witness:
  "sent (snd (main exampleLib allFlagsEnv freshWorld)) =
     [issueRequestExample\<lparr>ReqURL := (ReqURL issueRequestExample)\<lparr>Path := ''/repos///issues/''\<rparr>\<rparr>] \<and>
   fst (main exampleLib allFlagsEnv freshWorld) = Some (FatalStatus ''404 Not Found'') \<and>
   commentsFile (snd (main exampleLib allFlagsEnv freshWorld)) = None \<and>
   sent (snd (main exampleLib commentsDownEnv cachedWorld)) =
     [issueRequestExample, commentsRequestExample] \<and>
   fst (main exampleLib commentsDownEnv cachedWorld) =
     Some (FatalCommentsStatus ''500 Internal Server Error'') \<and>
   fst (main exampleLib exampleEnv cachedWorld) = None \<and>
   (\<exists>req1 status1 body1 req2 status2 body2.
      sent (snd (main exampleLib exampleEnv cachedWorld)) = [req1, req2] \<and>
      server exampleEnv req1 = Response 200 status1 (Some body1) \<and>
      server exampleEnv req2 = Response 200 status2 (Some body2))"
proof -
  define r where "r = issueRequestExample\<lparr>ReqURL := (ReqURL issueRequestExample)\<lparr>Path := ''/repos///issues/''\<rparr>\<rparr>"
  have f: "sent freshWorld = []" "commentsFile freshWorld = None" by (simp_all add: freshWorld_def)
  have c: "sent cachedWorld = []" by (simp add: cachedWorld_def)
  have s1: "sent (snd (main exampleLib allFlagsEnv freshWorld)) = [r]"
    by (simp add: r_def run_defs decode_defs example_defs)
  have r1: "server allFlagsEnv r = Response 404 ''404 Not Found'' (Some ''{}'')"
    by (simp add: r_def example_defs)
  have s2: "sent (snd (main exampleLib commentsDownEnv cachedWorld)) =
     [issueRequestExample, commentsRequestExample]"
    by (simp add: run_defs decode_defs example_defs)
  have r2: "server commentsDownEnv commentsRequestExample =
     Response 500 ''500 Internal Server Error'' (Some [])"
    by (simp add: example_defs)
  have s3: "fst (main exampleLib exampleEnv cachedWorld) = None" by (simp add: example_run)
  note t1 = non_200_status_is_fatal [of exampleLib allFlagsEnv freshWorld, THEN conjunct1,
      rule_format, of r "[]" 404 "''404 Not Found''" "Some ''{}''"]
  have a: "fst (main exampleLib allFlagsEnv freshWorld) = Some (FatalStatus ''404 Not Found'') \<and>
     commentsFile (snd (main exampleLib allFlagsEnv freshWorld)) = None"
    using t1 by (simp add: s1 r1 f)
  note t2 = non_200_status_is_fatal [of exampleLib commentsDownEnv cachedWorld,
      THEN conjunct2, THEN conjunct1, rule_format,
      of issueRequestExample commentsRequestExample 500 "''500 Internal Server Error''" "Some []"]
  have b: "fst (main exampleLib commentsDownEnv cachedWorld) =
     Some (FatalCommentsStatus ''500 Internal Server Error'')"
    using t2 by (simp add: s2 r2 c)
  note t3 = non_200_status_is_fatal [of exampleLib exampleEnv cachedWorld,
      THEN conjunct2, THEN conjunct2, rule_format, OF s3]
  have d: "\<exists>req1 status1 body1 req2 status2 body2.
      sent (snd (main exampleLib exampleEnv cachedWorld)) = [req1, req2] \<and>
      server exampleEnv req1 = Response 200 status1 (Some body1) \<and>
      server exampleEnv req2 = Response 200 status2 (Some body2)"
    using t3 by (simp only: c append_Nil)
  show ?thesis
    unfolding r_def [symmetric]
    by (intro conjI s1 s2 s3 b d a [THEN conjunct1] a [THEN conjunct2])
qed

theorem unread_body_hides_status_counterexample:
  "sent (snd (main exampleLib brokenBodyEnv cachedWorld)) = [issueRequestExample] \<and>
   server brokenBodyEnv issueRequestExample = Response 404 ''404 Not Found'' None \<and>
   fst (main exampleLib brokenBodyEnv cachedWorld) = Some FatalReadBody \<and>
   fst (main exampleLib brokenBodyEnv cachedWorld) \<noteq> Some (FatalStatus ''404 Not Found'')"
  by (simp add: run_defs decode_defs example_defs)

text \<open>
  Claim C9. Decoding does not depend on the members that match no field of the record
  shapes: an issue and a list of comments decode to the same result with and without
  them (also inside the \<^verbatim>\<open>user\<close> object). A body that is not JSON decodes to nothing, and
  a response whose body cannot be decoded ends the run: under status 200 with the fatal
  log of the decoding.
\<close>

theorem unknown_members_ignored_malformed_json_fatal:
  "(\<forall>j i. decodeIssue L (knownIssue L j) i = decodeIssue L j i) \<and>
   (\<forall>j. decodeComments L (knownComments L j) = decodeComments L j) \<and>
   (\<forall>body. jsonParse L body = None \<longrightarrow>
      unmarshalIssue L body = None \<and> unmarshalComments L body = None) \<and>
   (\<forall>req rest code status body.
      sent (snd (main L E w)) = sent w @ req # rest \<and>
      server E req = Response code status (Some body) \<and> unmarshalIssue L body = None \<longrightarrow>
        (\<exists>e. fst (main L E w) = Some e) \<and> rest = [] \<and>
        (code = 200 \<longrightarrow> fst (main L E w) = Some FatalParseIssue)) \<and>
   (\<forall>req1 req2 code status body.
      sent (snd (main L E w)) = sent w @ [req1, req2] \<and>
      server E req2 = Response code status (Some body) \<and> unmarshalComments L body = None \<longrightarrow>
        (\<exists>e. fst (main L E w) = Some e) \<and>
        (code = 200 \<longrightarrow> fst (main L E w) = Some FatalParseComments))"
proof -
  have p3: "unmarshalIssue L body = None \<and> unmarshalComments L body = None"
    if "jsonParse L body = None" for body
    using that by (simp add: unmarshalIssue_def unmarshalComments_def)
  have p4: "(\<exists>e. fst (main L E w) = Some e) \<and> rest = [] \<and>
        (code = 200 \<longrightarrow> fst (main L E w) = Some FatalParseIssue)"
    if a: "sent (snd (main L E w)) = sent w @ req # rest \<and>
      server E req = Response code status (Some body) \<and> unmarshalIssue L body = None"
    for req rest code status body
  proof -
    from a have r: "issueResponse L (server E req) =
        Inl (if code \<noteq> 200 then FatalStatus status else FatalParseIssue)"
      by (simp add: issueResponse_def)
    from a main_first_request [of L E w req rest] r show ?thesis by auto
  qed
  have p5: "(\<exists>e. fst (main L E w) = Some e) \<and>
        (code = 200 \<longrightarrow> fst (main L E w) = Some FatalParseComments)"
    if a: "sent (snd (main L E w)) = sent w @ [req1, req2] \<and>
      server E req2 = Response code status (Some body) \<and> unmarshalComments L body = None"
    for req1 req2 code status body
  proof -
    from a have r: "commentsResponse L (server E req2) =
        Inl (if code \<noteq> 200 then FatalCommentsStatus status else FatalParseComments)"
      by (simp add: commentsResponse_def)
    from a main_second_request [of L E w req1 req2] r show ?thesis by auto
  qed
  from p3 p4 p5 decodeIssue_known decodeComments_known show ?thesis by blast
qed


theorem unknown_members_ignored_malformed_json_fatal_witness:
  "knownIssue exampleLib exampleIssue =
     JObject [(''title'', JString ''T''), (''body'', JString ''B''),
              (''user'', JObject [(''login'', JString ''u'')]),
              (''created_at'', JString ''2023-07-09T08:05:30Z''),
              (''updated_at'', JString ''2023-07-09T08:05:30Z'')] \<and>
   decodeIssue exampleLib exampleIssue zeroIssue = Some exampleIssueRecord \<and>
   decodeIssue exampleLib (knownIssue exampleLib exampleIssue) zeroIssue = Some exampleIssueRecord \<and>
   decodeComments exampleLib (knownComments exampleLib exampleComments) =
     Some exampleCommentRecords \<and>
   jsonParse exampleLib ''<html>'' = None \<and>
   sent (snd (main exampleLib malformedIssueEnv cachedWorld)) = [issueRequestExample] \<and>
   server malformedIssueEnv issueRequestExample = Response 200 ''200 OK'' (Some ''<html>'') \<and>
   fst (main exampleLib malformedIssueEnv cachedWorld) = Some FatalParseIssue \<and>
   jsonParse exampleLib ''[1, 2'' = None \<and>
   sent (snd (main exampleLib malformedCommentsEnv cachedWorld)) =
     [issueRequestExample, commentsRequestExample] \<and>
   server malformedCommentsEnv commentsRequestExample = Response 200 ''200 OK'' (Some ''[1, 2'') \<and>
   fst (main exampleLib malformedCommentsEnv cachedWorld) = Some FatalParseComments"
proof -
  note claim1 = unknown_members_ignored_malformed_json_fatal
    [of exampleLib malformedIssueEnv cachedWorld]
  note claim2 = unknown_members_ignored_malformed_json_fatal
    [of exampleLib malformedCommentsEnv cachedWorld]
  have k: "knownIssue exampleLib exampleIssue =
     JObject [(''title'', JString ''T''), (''body'', JString ''B''),
              (''user'', JObject [(''login'', JString ''u'')]),
              (''created_at'', JString ''2023-07-09T08:05:30Z''),
              (''updated_at'', JString ''2023-07-09T08:05:30Z'')]"
    by (simp add: knownIssue_def knownUser_def example_defs)
  have d1: "decodeIssue exampleLib exampleIssue zeroIssue = Some exampleIssueRecord"
    by (simp add: decode_defs example_defs)
  have d2: "decodeComments exampleLib exampleComments = Some exampleCommentRecords"
    by (simp add: decode_defs example_defs)
  have d1': "decodeIssue exampleLib (knownIssue exampleLib exampleIssue) zeroIssue =
      Some exampleIssueRecord"
    using claim1 [THEN conjunct1, rule_format, of exampleIssue zeroIssue] d1 by simp
  have d2': "decodeComments exampleLib (knownComments exampleLib exampleComments) =
      Some exampleCommentRecords"
    using claim1 [THEN conjunct2, THEN conjunct1, rule_format, of exampleComments] d2 by simp
  have c: "sent cachedWorld = []" by (simp add: cachedWorld_def)
  have p1: "jsonParse exampleLib ''<html>'' = None" by (simp add: exampleLib_def)
  have p2: "jsonParse exampleLib ''[1, 2'' = None" by (simp add: exampleLib_def)
  have s1: "sent (snd (main exampleLib malformedIssueEnv cachedWorld)) = [issueRequestExample]"
    by (simp add: run_defs decode_defs example_defs)
  have r1: "server malformedIssueEnv issueRequestExample = Response 200 ''200 OK'' (Some ''<html>'')"
    by (simp add: example_defs)
  have s2: "sent (snd (main exampleLib malformedCommentsEnv cachedWorld)) =
     [issueRequestExample, commentsRequestExample]"
    by (simp add: run_defs decode_defs example_defs)
  have r2: "server malformedCommentsEnv commentsRequestExample =
     Response 200 ''200 OK'' (Some ''[1, 2'')"
    by (simp add: example_defs)
  note t3 = claim1 [THEN conjunct2, THEN conjunct2, THEN conjunct1, rule_format]
  have u1: "unmarshalIssue exampleLib ''<html>'' = None" using t3 [OF p1] by simp
  have u2: "unmarshalComments exampleLib ''[1, 2'' = None" using t3 [OF p2] by simp
  note t4 = claim1 [THEN conjunct2, THEN conjunct2, THEN conjunct2, THEN conjunct1, rule_format,
      of issueRequestExample "[]" 200 "''200 OK''" "''<html>''"]
  have a: "fst (main exampleLib malformedIssueEnv cachedWorld) = Some FatalParseIssue"
    using t4 by (simp add: s1 r1 u1 c)
  note t5 = claim2 [THEN conjunct2, THEN conjunct2, THEN conjunct2, THEN conjunct2, rule_format,
      of issueRequestExample commentsRequestExample 200 "''200 OK''" "''[1, 2''"]
  have b: "fst (main exampleLib malformedCommentsEnv cachedWorld) = Some FatalParseComments"
    using t5 by (simp add: s2 r2 u2 c)
  show ?thesis
    by (intro conjI k d1 d1' d2' p1 s1 r1 a p2 s2 r2 b)
qed

end
